theory Spec2Isabelle
  imports Main "HOL-Library.AList"
begin

section \<open>Diagnostics buffers (session.ts)\<close>

text \<open>
  The TypeScript interfaces of session.ts become records. An optional field
  (\<^verbatim>\<open>url?: string\<close>) is an \<open>option\<close>; \<open>None\<close> is JavaScript's \<^verbatim>\<open>undefined\<close>.
  Timestamps and durations are milliseconds as \<open>int\<close> (what \<^verbatim>\<open>Date.now()\<close> returns).
\<close>

definition MAX_BUFFER_SIZE :: nat where
  "MAX_BUFFER_SIZE = 100"

record ConsoleEntry =
  ce_level :: string
  ce_text :: string
  ce_url :: "string option"
  ce_line :: "int option"
  ce_timestamp :: int

record NetworkEntry =
  ne_method :: string
  ne_url :: string
  ne_status :: "int option"
  ne_duration :: "int option"
  ne_error :: "string option"
  ne_timestamp :: int

record SessionDiagnostics =
  console :: "ConsoleEntry list"
  network :: "NetworkEntry list"

text \<open>
  \<^verbatim>\<open>buffer.push(entry); if (buffer.length > MAX_BUFFER_SIZE) buffer.shift();\<close>
  The array is a list, oldest entry first; \<^verbatim>\<open>push\<close> appends and \<^verbatim>\<open>shift\<close> drops
  the head.
\<close>

definition addToBuffer :: "'a list \<Rightarrow> 'a \<Rightarrow> 'a list" where
  "addToBuffer buffer entry =
     (let pushed = buffer @ [entry]
      in if length pushed > MAX_BUFFER_SIZE then tl pushed else pushed)"

section \<open>JavaScript values used by the tools\<close>

text \<open>
  An optional string parameter is a \<open>string option\<close>. JavaScript's truthiness test
  (\<^verbatim>\<open>if (!selector)\<close>, \<^verbatim>\<open>value || 'Enter'\<close>) treats both \<^verbatim>\<open>undefined\<close> and the empty
  string as false.
\<close>

definition truthy :: "string option \<Rightarrow> bool" where
  "truthy s = (case s of None \<Rightarrow> False | Some t \<Rightarrow> t \<noteq> [])"

text \<open>The string of a parameter that has been checked to be present.\<close>

definition str :: "string option \<Rightarrow> string" where
  "str s = (case s of None \<Rightarrow> [] | Some t \<Rightarrow> t)"

definition or_else :: "string option \<Rightarrow> string \<Rightarrow> string" where
  "or_else s d = (case s of None \<Rightarrow> d | Some t \<Rightarrow> if t = [] then d else t)"

text \<open>
  \<^verbatim>\<open>Array.prototype.slice(start)\<close> with an integral \<open>start\<close>: a negative start counts
  from the end (clamped at 0), a non-negative one from the front (clamped at the
  length). In particular \<^verbatim>\<open>slice(-0)\<close> is \<^verbatim>\<open>slice(0)\<close>, the whole array.
\<close>

definition slice :: "'a list \<Rightarrow> int \<Rightarrow> 'a list" where
  "slice xs start =
     (let len = int (length xs);
          k = (if start < 0 then max (len + start) 0 else min start len)
      in drop (nat k) xs)"

text \<open>A value between single quotes, as in the template \<^verbatim>\<open>'${sessionId}'\<close>.\<close>

definition quoted :: "string \<Rightarrow> string" where
  "quoted s = [CHR 0x27] @ s @ [CHR 0x27]"

text \<open>Decimal rendering of a number inside a template string.\<close>

definition digit :: "nat \<Rightarrow> char" where
  "digit d =
     (if d = 0 then CHR ''0'' else if d = 1 then CHR ''1'' else if d = 2 then CHR ''2''
      else if d = 3 then CHR ''3'' else if d = 4 then CHR ''4'' else if d = 5 then CHR ''5''
      else if d = 6 then CHR ''6'' else if d = 7 then CHR ''7'' else if d = 8 then CHR ''8''
      else CHR ''9'')"

function digits :: "nat \<Rightarrow> string" where
  "digits n = (if n < 10 then [digit n] else digits (n div 10) @ [digit (n mod 10)])"
  by pat_completeness auto
termination
  by (relation "measure (\<lambda>n. n)") simp_all

declare digits.simps [simp del]

definition show_int :: "int \<Rightarrow> string" where
  "show_int i = (if i < 0 then CHR ''-'' # digits (nat (- i)) else digits (nat i))"

section \<open>The session registry (session.ts)\<close>

text \<open>
  Objects of the browser engine (the Browser, each Page, each Request) and the
  \<^verbatim>\<open>diagnostics\<close> object of a session are identified by a reference (a number).
  A Session holds the reference of its page and of its diagnostics object: the
  listeners registered on the page and the diagnostics tool mutate the same arrays,
  which live in \<open>heap\<close>.
\<close>

type_synonym ref = nat

record Session =
  session_id :: string
  page :: ref
  createdAt :: int
  diagnostics :: ref

record PendingRequest =
  start :: int
  pr_method :: string
  pr_url :: string

text \<open>
  The module state: \<^verbatim>\<open>browser\<close>, \<^verbatim>\<open>sessions\<close> (a Map, which keeps insertion order:
  an association list), \<^verbatim>\<open>pendingRequests\<close>, \<^verbatim>\<open>headless\<close>; then what the module
  reaches through references: the open pages of the engine, the diagnostics objects,
  the \<^verbatim>\<open>_requestId\<close> property stored on request objects, and the next fresh reference.
\<close>

record registry =
  browser :: "ref option"
  sessions :: "(string \<times> Session) list"
  pendingRequests :: "string \<rightharpoonup> PendingRequest"
  headless :: bool
  pages :: "ref list"
  heap :: "ref \<Rightarrow> SessionDiagnostics"
  requestIds :: "ref \<rightharpoonup> string"
  next_ref :: ref

definition empty_diagnostics :: SessionDiagnostics where
  "empty_diagnostics = \<lparr>console = [], network = []\<rparr>"

definition initial_registry :: registry where
  "initial_registry =
     \<lparr>browser = None, sessions = [], pendingRequests = Map.empty, headless = True,
      pages = [], heap = (\<lambda>_. empty_diagnostics), requestIds = Map.empty, next_ref = 0\<rparr>"

definition setHeadless :: "bool \<Rightarrow> registry \<Rightarrow> registry" where
  "setHeadless v st = st\<lparr>headless := v\<rparr>"

subsection \<open>The page listeners\<close>

text \<open>
  Each listener is a closure over the \<^verbatim>\<open>diagnostics\<close> object created by
  \<^verbatim>\<open>openSession\<close>: the model passes its reference \<open>d\<close>. Every reading of the clock
  (\<^verbatim>\<open>Date.now()\<close>, \<^verbatim>\<open>new Date()\<close>) is an argument.
\<close>

record ConsoleMessage =
  msg_type :: string
  msg_text :: string
  location_url :: string
  location_lineNumber :: int

definition on_console :: "ref \<Rightarrow> ConsoleMessage \<Rightarrow> int \<Rightarrow> registry \<Rightarrow> registry" where
  "on_console d msg stamp st =
     (let entry = \<lparr>ce_level = msg_type msg, ce_text = msg_text msg,
                    ce_url = (if location_url msg = [] then None else Some (location_url msg)),
                    ce_line = (if location_lineNumber msg = 0 then None
                               else Some (location_lineNumber msg)),
                    ce_timestamp = stamp\<rparr>;
          diag = heap st d
      in st\<lparr>heap := (heap st)(d := diag\<lparr>console := addToBuffer (console diag) entry\<rparr>)\<rparr>)"

record Request =
  req_ref :: ref
  req_url :: string
  req_method :: string
  req_failure :: "string option"

definition on_request :: "Request \<Rightarrow> int \<Rightarrow> int \<Rightarrow> registry \<Rightarrow> registry" where
  "on_request req now_id now_start st =
     (let requestId = req_url req @ ''-'' @ show_int now_id
      in st\<lparr>pendingRequests := (pendingRequests st)(requestId \<mapsto>
                \<lparr>start = now_start, pr_method = req_method req, pr_url = req_url req\<rparr>),
            requestIds := (requestIds st)(req_ref req \<mapsto> requestId)\<rparr>)"

text \<open>
  \<^verbatim>\<open>const pending = requestId ? pendingRequests.get(requestId) : null\<close>, and
  \<^verbatim>\<open>if (requestId) pendingRequests.delete(requestId)\<close>.
\<close>

definition lookup_pending :: "registry \<Rightarrow> Request \<Rightarrow> PendingRequest option" where
  "lookup_pending st req =
     (if truthy (requestIds st (req_ref req))
      then pendingRequests st (str (requestIds st (req_ref req)))
      else None)"

definition delete_pending :: "registry \<Rightarrow> Request \<Rightarrow> registry" where
  "delete_pending st req =
     (if truthy (requestIds st (req_ref req))
      then st\<lparr>pendingRequests :=
             (pendingRequests st)(str (requestIds st (req_ref req)) := None)\<rparr>
      else st)"

definition record_network :: "ref \<Rightarrow> NetworkEntry \<Rightarrow> registry \<Rightarrow> registry" where
  "record_network d entry st =
     st\<lparr>heap := (heap st)(d := (heap st d)\<lparr>network := addToBuffer (network (heap st d)) entry\<rparr>)\<rparr>"

definition on_response :: "ref \<Rightarrow> Request \<Rightarrow> int \<Rightarrow> int \<Rightarrow> int \<Rightarrow> registry \<Rightarrow> registry" where
  "on_response d req status now stamp st =
     (let pending = lookup_pending st req;
          entry = \<lparr>ne_method = req_method req, ne_url = req_url req,
                    ne_status = Some status,
                    ne_duration = (case pending of Some p \<Rightarrow> Some (now - start p) | None \<Rightarrow> None),
                    ne_error = None, ne_timestamp = stamp\<rparr>
      in delete_pending (record_network d entry st) req)"

definition on_requestfailed :: "ref \<Rightarrow> Request \<Rightarrow> int \<Rightarrow> int \<Rightarrow> registry \<Rightarrow> registry" where
  "on_requestfailed d req now stamp st =
     (let pending = lookup_pending st req;
          entry = \<lparr>ne_method = req_method req, ne_url = req_url req,
                    ne_status = None,
                    ne_duration = (case pending of Some p \<Rightarrow> Some (now - start p) | None \<Rightarrow> None),
                    ne_error = Some (or_else (req_failure req) ''Request failed''),
                    ne_timestamp = stamp\<rparr>
      in delete_pending (record_network d entry st) req)"

text \<open>
  An event emitted by a page, with the clock readings its listener takes, and its
  delivery to the listener that \<^verbatim>\<open>page.on\<close> registered for it.
\<close>

datatype page_event =
  ConsoleEvent ConsoleMessage int
| RequestEvent Request int int
| ResponseEvent Request int int int
| RequestFailedEvent Request int int

fun deliver :: "ref \<Rightarrow> registry \<Rightarrow> page_event \<Rightarrow> registry" where
  "deliver d st (ConsoleEvent msg stamp) = on_console d msg stamp st"
| "deliver d st (RequestEvent req now_id now_start) = on_request req now_id now_start st"
| "deliver d st (ResponseEvent req status now stamp) = on_response d req status now stamp st"
| "deliver d st (RequestFailedEvent req now stamp) = on_requestfailed d req now stamp st"

subsection \<open>Opening and closing sessions\<close>

text \<open>
  What the engine answers during one \<^verbatim>\<open>openSession\<close>: whether the stored browser is
  still connected, and for each awaited call whether it rejects (\<open>Some message\<close>) or
  resolves (\<open>None\<close>); the events the page emits while \<^verbatim>\<open>page.goto\<close> is awaited, which
  reach the listeners registered just before; \<open>open_now\<close> is the clock read by
  \<^verbatim>\<open>new Date()\<close>.
\<close>

record open_env =
  isConnected :: bool
  launch_rejects :: "string option"
  newPage_rejects :: "string option"
  setViewportSize_rejects :: "string option"
  goto_events :: "page_event list"
  goto_rejects :: "string option"
  open_now :: int

definition launch :: "open_env \<Rightarrow> registry \<Rightarrow> (string + ref) \<times> registry" where
  "launch env st =
     (case launch_rejects env of
        Some e \<Rightarrow> (Inl e, st)
      | None \<Rightarrow>
          (Inr (next_ref st), st\<lparr>browser := Some (next_ref st), next_ref := next_ref st + 1\<rparr>))"

definition ensureBrowser :: "open_env \<Rightarrow> registry \<Rightarrow> (string + ref) \<times> registry" where
  "ensureBrowser env st =
     (case browser st of
        None \<Rightarrow> launch env st
      | Some b \<Rightarrow> if \<not> isConnected env then launch env st else (Inr b, st))"

definition getSession :: "registry \<Rightarrow> string \<Rightarrow> Session option" where
  "getSession st sessionId = map_of (sessions st) sessionId"

definition listSessions :: "registry \<Rightarrow> string list" where
  "listSessions st = map fst (sessions st)"

text \<open>
  \<^verbatim>\<open>openSession\<close>. The listeners are registered on the new page before the
  navigation, so the events of the navigation are already in the buffers when
  \<^verbatim>\<open>page.goto\<close> resolves or rejects.
\<close>

definition openSession ::
  "open_env \<Rightarrow> string \<Rightarrow> string \<Rightarrow> registry \<Rightarrow> (string + Session) \<times> registry" where
  "openSession env sessionId url st =
     (if map_of (sessions st) sessionId \<noteq> None
      then (Inl (''Session '' @ quoted sessionId @ '' already exists''), st)
      else
        (case ensureBrowser env st of
           (Inl e, st1) \<Rightarrow> (Inl e, st1)
         | (Inr b, st1) \<Rightarrow>
             (case newPage_rejects env of
                Some e \<Rightarrow> (Inl e, st1)
              | None \<Rightarrow>
                  (let p = next_ref st1;
                       st2 = st1\<lparr>pages := pages st1 @ [p], next_ref := p + 1\<rparr>
                   in case setViewportSize_rejects env of
                        Some e \<Rightarrow> (Inl e, st2)
                      | None \<Rightarrow>
                          (let d = next_ref st2;
                               st3 = st2\<lparr>heap := (heap st2)(d := empty_diagnostics),
                                         next_ref := d + 1\<rparr>;
                               st4 = foldl (deliver d) st3 (goto_events env)
                           in case goto_rejects env of
                                Some e \<Rightarrow> (Inl e, st4)
                              | None \<Rightarrow>
                                  (let session = \<lparr>session_id = sessionId, page = p,
                                         createdAt = open_now env, diagnostics = d\<rparr>
                                   in (Inr session,
                                       st4\<lparr>sessions :=
                                         AList.update sessionId session (sessions st4)\<rparr>)))))))"

text \<open>
  \<^verbatim>\<open>closeSession\<close>: the two awaited calls may reject; closing the browser closes the
  pages it still has.
\<close>

record close_env =
  page_close_rejects :: "string option"
  browser_close_rejects :: "string option"

definition closeSession ::
  "close_env \<Rightarrow> string \<Rightarrow> registry \<Rightarrow> (string + bool) \<times> registry" where
  "closeSession env sessionId st =
     (case map_of (sessions st) sessionId of
        None \<Rightarrow> (Inr False, st)
      | Some session \<Rightarrow>
          (case page_close_rejects env of
             Some e \<Rightarrow> (Inl e, st)
           | None \<Rightarrow>
               (let st1 = st\<lparr>pages := removeAll (page session) (pages st),
                              sessions := AList.delete sessionId (sessions st)\<rparr>
                in if length (sessions st1) = 0 \<and> browser st1 \<noteq> None
                   then (case browser_close_rejects env of
                           Some e \<Rightarrow> (Inl e, st1)
                         | None \<Rightarrow> (Inr True, st1\<lparr>browser := None, pages := []\<rparr>))
                   else (Inr True, st1))))"

section \<open>The diagnostics tool\<close>

record DiagnosticsParams =
  p_session :: string
  p_type :: "string option"
  p_level :: "string option"
  p_limit :: "int option"
  p_clear :: "bool option"

datatype diagnostics_response =
  SessionNotFound string "string list"
| Diagnostics string string "ConsoleEntry list option" "NetworkEntry list option"

text \<open>
  The handler of the tool. It reads the console buffer (filtered by level when a
  level is given), clears it when asked, then does the same for the network buffer.
  The limit is an integer here (\<^verbatim>\<open>slice\<close> truncates a fractional one).
  \<^verbatim>\<open>array.length = 0\<close> empties the array that the listeners write to.
\<close>

definition filter_level :: "string option \<Rightarrow> ConsoleEntry list \<Rightarrow> ConsoleEntry list" where
  "filter_level level consoleEntries =
     (if truthy level
      then filter (\<lambda>e. ce_level e = str level) consoleEntries
      else consoleEntries)"

definition read_console ::
  "string option \<Rightarrow> int \<Rightarrow> ConsoleEntry list \<Rightarrow> ConsoleEntry list" where
  "read_console level limit buffer = rev (slice (filter_level level buffer) (- limit))"

definition read_network :: "int \<Rightarrow> NetworkEntry list \<Rightarrow> NetworkEntry list" where
  "read_network limit buffer = rev (slice buffer (- limit))"

definition clear_console :: "ref \<Rightarrow> registry \<Rightarrow> registry" where
  "clear_console d st = st\<lparr>heap := (heap st)(d := (heap st d)\<lparr>console := []\<rparr>)\<rparr>"

definition clear_network :: "ref \<Rightarrow> registry \<Rightarrow> registry" where
  "clear_network d st = st\<lparr>heap := (heap st)(d := (heap st d)\<lparr>network := []\<rparr>)\<rparr>"

text \<open>The destructuring defaults: \<^verbatim>\<open>type = 'all'\<close>, \<^verbatim>\<open>limit = 50\<close>, \<^verbatim>\<open>clear = false\<close>.\<close>

definition param_type :: "DiagnosticsParams \<Rightarrow> string" where
  "param_type params = (case p_type params of None \<Rightarrow> ''all'' | Some t \<Rightarrow> t)"

definition param_limit :: "DiagnosticsParams \<Rightarrow> int" where
  "param_limit params = (case p_limit params of None \<Rightarrow> 50 | Some n \<Rightarrow> n)"

definition param_clear :: "DiagnosticsParams \<Rightarrow> bool" where
  "param_clear params = (case p_clear params of None \<Rightarrow> False | Some c \<Rightarrow> c)"

definition diagnostics_handler ::
  "DiagnosticsParams \<Rightarrow> registry \<Rightarrow> diagnostics_response \<times> registry" where
  "diagnostics_handler params st =
     (let sessionId = p_session params; type = param_type params; level = p_level params;
          limit = param_limit params; clear = param_clear params
      in case getSession st sessionId of
           None \<Rightarrow>
             (SessionNotFound (''Session '' @ quoted sessionId @ '' not found'') (listSessions st), st)
         | Some session \<Rightarrow>
             (let d = diagnostics session;
                  result_console =
                    (if type = ''console'' \<or> type = ''all''
                     then Some (read_console level limit (console (heap st d))) else None);
                  st1 =
                    (if (type = ''console'' \<or> type = ''all'') \<and> clear
                     then clear_console d st else st);
                  result_network =
                    (if type = ''network'' \<or> type = ''all''
                     then Some (read_network limit (network (heap st1 d))) else None);
                  st2 =
                    (if (type = ''network'' \<or> type = ''all'') \<and> clear
                     then clear_network d st1 else st1)
              in (Diagnostics sessionId type result_console result_network, st2)))"

section \<open>Browser actions\<close>

text \<open>
  The Playwright page is outside the program. The model keeps what the program does
  to it, the list of operations called so far, and takes the engine's answers as a
  parameter: whether a call rejects (with which message) after the operations so
  far, and the URL and title the page then reports.
\<close>

datatype page_op =
  Goto string
| GoBack
| GoForward
| Click string
| WaitForLoadState
| Fill string string
| SelectOption string string
| Check string
| Uncheck string
| Press string string
| KeyboardPress string
| ScrollElementBy string int
| ScrollWindowBy int
| HighlightElement string
| Title

record engine =
  rejects :: "page_op list \<Rightarrow> page_op \<Rightarrow> string option"
  url_after :: "page_op list \<Rightarrow> string"
  title_after :: "page_op list \<Rightarrow> string"

definition page_call :: "engine \<Rightarrow> page_op \<Rightarrow> page_op list \<Rightarrow> string option \<times> page_op list" where
  "page_call eng op log = (rejects eng log op, log @ [op])"

record ActionParams =
  a_type :: string
  a_selector :: "string option"
  a_value :: "string option"
  a_url :: "string option"

record ActionResult =
  ar_success :: bool
  ar_action :: string
  ar_url :: "string option"
  ar_title :: "string option"
  ar_selector :: "string option"
  ar_direction :: "string option"
  ar_error :: "string option"

text \<open>\<^verbatim>\<open>result.url = page.url(); result.title = await page.title();\<close>\<close>

definition report_url_title ::
  "engine \<Rightarrow> ActionResult \<Rightarrow> page_op list \<Rightarrow> (string + ActionResult) \<times> page_op list" where
  "report_url_title eng result log =
     (case page_call eng Title log of
        (Some e, log') \<Rightarrow> (Inl e, log')
      | (None, log') \<Rightarrow>
          (Inr (result\<lparr>ar_url := Some (url_after eng log),
                        ar_title := Some (title_after eng log')\<rparr>), log'))"

text \<open>A call on one element that echoes the selector: fill, select, check, uncheck, highlight.\<close>

definition element_call ::
  "engine \<Rightarrow> ActionResult \<Rightarrow> page_op \<Rightarrow> string \<Rightarrow> page_op list \<Rightarrow>
   (string + ActionResult) \<times> page_op list" where
  "element_call eng result op selector log =
     (case page_call eng op log of
        (Some e, log') \<Rightarrow> (Inl e, log')
      | (None, log') \<Rightarrow> (Inr (result\<lparr>ar_selector := Some selector\<rparr>), log'))"

text \<open>
  \<^verbatim>\<open>await page.waitForLoadState('domcontentloaded').catch(() => {}); result.url = page.url();\<close>
  The rejection of the wait is dropped.
\<close>

definition settle_and_report_url ::
  "engine \<Rightarrow> ActionResult \<Rightarrow> page_op list \<Rightarrow> (string + ActionResult) \<times> page_op list" where
  "settle_and_report_url eng result log =
     (case page_call eng WaitForLoadState log of
        (_, log') \<Rightarrow> (Inr (result\<lparr>ar_url := Some (url_after eng log')\<rparr>), log'))"

definition scroll_amount :: "string \<Rightarrow> int" where
  "scroll_amount dir = (if dir = ''up'' then - 500 else 500)"

definition performAction ::
  "engine \<Rightarrow> ActionParams \<Rightarrow> page_op list \<Rightarrow> (string + ActionResult) \<times> page_op list" where
  "performAction eng params log =
     (let type = a_type params; selector = a_selector params;
          value = a_value params; url = a_url params;
          result = \<lparr>ar_success = True, ar_action = type, ar_url = None, ar_title = None,
                     ar_selector = None, ar_direction = None, ar_error = None\<rparr>
      in
      if type = ''navigate'' then
        (if \<not> truthy url then (Inl ''navigate requires url parameter'', log)
         else case page_call eng (Goto (str url)) log of
                (Some e, log') \<Rightarrow> (Inl e, log')
              | (None, log') \<Rightarrow> report_url_title eng result log')
      else if type = ''back'' then
        (case page_call eng GoBack log of
           (Some e, log') \<Rightarrow> (Inl e, log')
         | (None, log') \<Rightarrow> report_url_title eng result log')
      else if type = ''forward'' then
        (case page_call eng GoForward log of
           (Some e, log') \<Rightarrow> (Inl e, log')
         | (None, log') \<Rightarrow> report_url_title eng result log')
      else if type = ''click'' then
        (if \<not> truthy selector then (Inl ''click requires selector parameter'', log)
         else case page_call eng (Click (str selector)) log of
                (Some e, log') \<Rightarrow> (Inl e, log')
              | (None, log') \<Rightarrow> settle_and_report_url eng result log')
      else if type = ''fill'' then
        (if \<not> truthy selector then (Inl ''fill requires selector parameter'', log)
         else if value = None then (Inl ''fill requires value parameter'', log)
         else element_call eng result (Fill (str selector) (str value)) (str selector) log)
      else if type = ''select'' then
        (if \<not> truthy selector then (Inl ''select requires selector parameter'', log)
         else if value = None then (Inl ''select requires value parameter'', log)
         else element_call eng result (SelectOption (str selector) (str value)) (str selector) log)
      else if type = ''check'' then
        (if \<not> truthy selector then (Inl ''check requires selector parameter'', log)
         else element_call eng result (Check (str selector)) (str selector) log)
      else if type = ''uncheck'' then
        (if \<not> truthy selector then (Inl ''uncheck requires selector parameter'', log)
         else element_call eng result (Uncheck (str selector)) (str selector) log)
      else if type = ''press'' then
        (if \<not> truthy selector \<and> \<not> truthy value
         then (Inl ''press requires selector or value (key) parameter'', log)
         else case (if truthy selector
                    then page_call eng (Press (str selector) (or_else value ''Enter'')) log
                    else page_call eng (KeyboardPress (str value)) log) of
                (Some e, log') \<Rightarrow> (Inl e, log')
              | (None, log') \<Rightarrow> settle_and_report_url eng result log')
      else if type = ''scroll'' then
        (let direction = or_else value ''down''
         in case (if truthy selector
                  then page_call eng (ScrollElementBy (str selector) (scroll_amount direction)) log
                  else page_call eng (ScrollWindowBy (scroll_amount direction)) log) of
              (Some e, log') \<Rightarrow> (Inl e, log')
            | (None, log') \<Rightarrow> (Inr (result\<lparr>ar_direction := Some direction\<rparr>), log'))
      else if type = ''highlight'' then
        (if \<not> truthy selector then (Inl ''highlight requires selector parameter'', log)
         else element_call eng result (HighlightElement (str selector)) (str selector) log)
      else (Inl (''Unknown action type: '' @ type), log))"

text \<open>The values of the type \<^verbatim>\<open>ActionType\<close>.\<close>

definition action_types :: "string list" where
  "action_types =
     [''navigate'', ''back'', ''forward'', ''click'', ''fill'', ''select'', ''check'',
      ''uncheck'', ''press'', ''scroll'', ''highlight'']"

text \<open>
  From the specification's words, not from the code: an invocation that misses a
  parameter its action type requires (the URL for navigate; the selector for click,
  fill, select, check, uncheck and highlight; the value for fill and select; both
  selector and value for press), or whose action type is unknown.
\<close>

definition missing_required :: "ActionParams \<Rightarrow> bool" where
  "missing_required params =
     (a_type params = ''navigate'' \<and> a_url params = None \<or>
      a_type params \<in> set [''click'', ''fill'', ''select'', ''check'', ''uncheck'', ''highlight'']
        \<and> a_selector params = None \<or>
      a_type params \<in> set [''fill'', ''select''] \<and> a_value params = None \<or>
      a_type params = ''press'' \<and> a_selector params = None \<and> a_value params = None \<or>
      a_type params \<notin> set action_types)"

section \<open>The sequence runner\<close>

text \<open>
  Modelled from the spec: the sequence runner (section 4.4 of the specification) is
  not among the source files. A step is an action, run by \<open>performAction\<close>, or an
  assertion, decided by the external evaluator, which answers true or false or
  throws. Steps run in declared order; each attempted step leaves an outcome event;
  the first failure ends the run; the result holds the success flag, the number of
  steps attempted, the number of steps declared, the events and the final URL.
\<close>

datatype 'c step = Action ActionParams | Assertion 'c

text \<open>
  Modelled from the spec: the step-outcome event (step index, kind, success flag,
  captured detail), absent from the source files.
\<close>

record StepOutcome =
  so_index :: nat
  so_kind :: string
  so_success :: bool
  so_detail :: "string option"

text \<open>
  Modelled from the spec: the execution record (overall success, steps completed,
  total steps, the ordered outcome events, the final URL of the session), absent
  from the source files.
\<close>

record SequenceResult =
  sr_success :: bool
  completed :: nat
  total :: nat
  outcomes :: "StepOutcome list"
  final_url :: string

text \<open>Modelled from the spec: the kind of a step, absent from the source files.\<close>

fun step_kind :: "'c step \<Rightarrow> string" where
  "step_kind (Action _) = ''action''"
| "step_kind (Assertion _) = ''assertion''"

text \<open>
  Modelled from the spec: running one step, absent from the source files. A thrown
  error of the action, and a false or throwing assertion, are failures
  (\<open>Some detail\<close>).
\<close>

fun run_step ::
  "engine \<Rightarrow> (page_op list \<Rightarrow> 'c \<Rightarrow> string + bool) \<Rightarrow> 'c step \<Rightarrow> page_op list \<Rightarrow>
   string option \<times> page_op list" where
  "run_step eng evaluate (Action params) log =
     (case performAction eng params log of
        (Inl e, log') \<Rightarrow> (Some e, log')
      | (Inr r, log') \<Rightarrow> (None, log'))"
| "run_step eng evaluate (Assertion c) log =
     (case evaluate log c of
        Inl e \<Rightarrow> (Some e, log)
      | Inr ok \<Rightarrow> (if ok then (None, log) else (Some ''assertion failed'', log)))"

text \<open>Modelled from the spec: the event recorded for a step, absent from the source files.\<close>

definition outcome :: "nat \<Rightarrow> 'c step \<Rightarrow> string option \<Rightarrow> StepOutcome" where
  "outcome i s failure =
     \<lparr>so_index = i, so_kind = step_kind s, so_success = (failure = None), so_detail = failure\<rparr>"

text \<open>
  Modelled from the spec: the loop over the steps, absent from the source files,
  from step number \<open>i\<close>; it stops at the first failure.
\<close>

fun run_steps ::
  "engine \<Rightarrow> (page_op list \<Rightarrow> 'c \<Rightarrow> string + bool) \<Rightarrow> nat \<Rightarrow> 'c step list \<Rightarrow> page_op list \<Rightarrow>
   StepOutcome list \<times> bool \<times> page_op list" where
  "run_steps eng evaluate i [] log = ([], True, log)"
| "run_steps eng evaluate i (s # rest) log =
     (case run_step eng evaluate s log of
        (Some e, log') \<Rightarrow> ([outcome i s (Some e)], False, log')
      | (None, log') \<Rightarrow>
          (case run_steps eng evaluate (i + 1) rest log' of
             (os, ok, log'') \<Rightarrow> (outcome i s None # os, ok, log'')))"

text \<open>
  Modelled from the spec: the run of a sequence, absent from the source files, and
  the result record it builds after the last attempted step.
\<close>

definition runSequence ::
  "engine \<Rightarrow> (page_op list \<Rightarrow> 'c \<Rightarrow> string + bool) \<Rightarrow> 'c step list \<Rightarrow> page_op list \<Rightarrow>
   SequenceResult \<times> page_op list" where
  "runSequence eng evaluate steps log =
     (case run_steps eng evaluate 1 steps log of
        (os, ok, log') \<Rightarrow>
          (\<lparr>sr_success = ok, completed = length os, total = length steps,
            outcomes = os, final_url = url_after eng log'\<rparr>, log'))"

text \<open>
  Modelled from the spec: the number (from 1) of the first step that throws or
  fails when the steps are run in order, each on the page as the steps before it
  left it; \<open>None\<close> when every step succeeds.
\<close>

fun first_failure ::
  "engine \<Rightarrow> (page_op list \<Rightarrow> 'c \<Rightarrow> string + bool) \<Rightarrow> 'c step list \<Rightarrow> page_op list \<Rightarrow>
   nat option" where
  "first_failure eng evaluate [] log = None"
| "first_failure eng evaluate (s # rest) log =
     (case run_step eng evaluate s log of
        (Some e, log') \<Rightarrow> Some 1
      | (None, log') \<Rightarrow> map_option Suc (first_failure eng evaluate rest log'))"

section \<open>The describe tool and the vision module\<close>

record process_env =
  OPENAI_API_KEY :: "string option"
  ANTHROPIC_API_KEY :: "string option"

datatype VisionProvider = openai | anthropic

definition openai_isConfigured :: "process_env \<Rightarrow> bool" where
  "openai_isConfigured penv = truthy (OPENAI_API_KEY penv)"

definition anthropic_isConfigured :: "process_env \<Rightarrow> bool" where
  "anthropic_isConfigured penv = truthy (ANTHROPIC_API_KEY penv)"

definition getProvider :: "process_env \<Rightarrow> VisionProvider option" where
  "getProvider penv =
     (if openai_isConfigured penv then Some openai
      else if anthropic_isConfigured penv then Some anthropic
      else None)"

definition isConfigured :: "process_env \<Rightarrow> bool" where
  "isConfigured penv = (getProvider penv \<noteq> None)"

definition DEFAULT_PROMPT :: string where
  "DEFAULT_PROMPT =
     ''Describe this screenshot of a web page. Include:'' @ [CHR 0x0A] @
     ''- Main content and purpose of the page'' @ [CHR 0x0A] @
     ''- Key UI elements (buttons, forms, navigation)'' @ [CHR 0x0A] @
     ''- Any error messages or alerts visible'' @ [CHR 0x0A] @
     ''- Current state (loading, loaded, error)'' @ [CHR 0x0A] @
     ''Keep the description concise but comprehensive.''"

definition buildPrompt :: "string option \<Rightarrow> string" where
  "buildPrompt userPrompt =
     (if \<not> truthy userPrompt then DEFAULT_PROMPT
      else ''Looking at this screenshot of a web page: '' @ str userPrompt)"

record VisionResult =
  vr_success :: bool
  vr_description :: "string option"
  vr_provider :: "VisionProvider option"
  vr_error :: "string option"

definition not_configured :: VisionResult where
  "not_configured =
     \<lparr>vr_success = False, vr_description = None, vr_provider = None,
      vr_error = Some ''Vision not configured. Set OPENAI_API_KEY or ANTHROPIC_API_KEY environment variable.''\<rparr>"

text \<open>
  The remote vision service is a parameter: for a provider, an image and a prompt it
  answers a description (\<open>Inr\<close>) or fails with a message (\<open>Inl\<close>).
\<close>

definition describeImage ::
  "(VisionProvider \<Rightarrow> string \<Rightarrow> string \<Rightarrow> string + string) \<Rightarrow> process_env \<Rightarrow>
   string \<Rightarrow> string option \<Rightarrow> VisionResult" where
  "describeImage api penv base64Image userPrompt =
     (case getProvider penv of
        None \<Rightarrow> not_configured
      | Some provider \<Rightarrow>
          (case api provider base64Image (buildPrompt userPrompt) of
             Inr description \<Rightarrow>
               \<lparr>vr_success = True, vr_description = Some description,
                vr_provider = Some provider, vr_error = None\<rparr>
           | Inl message \<Rightarrow>
               \<lparr>vr_success = False, vr_description = None, vr_provider = Some provider,
                vr_error = Some (''Vision API error: '' @ message)\<rparr>))"

record DescribeParams =
  d_session :: string
  d_selector :: "string option"
  d_fullPage :: "bool option"
  d_prompt :: "string option"

text \<open>
  The two shapes the handler returns: a \<^verbatim>\<open>DescribeResult\<close> (the fields of a
  \<^verbatim>\<open>VisionResult\<close>), or the session-not-found object with \<^verbatim>\<open>availableSessions\<close>.
\<close>

datatype describe_response =
  DescribeResult VisionResult
| DescribeSessionNotFound string "string list"

text \<open>What the page answers to the screenshot calls: a base64 image or a rejection.\<close>

record capture_env =
  locator_count :: "ref \<Rightarrow> string \<Rightarrow> string + nat"
  element_screenshot :: "ref \<Rightarrow> string \<Rightarrow> string + string"
  page_screenshot :: "ref \<Rightarrow> bool \<Rightarrow> string + string"

definition describe_failure :: "string \<Rightarrow> describe_response" where
  "describe_failure e =
     DescribeResult \<lparr>vr_success = False, vr_description = None, vr_provider = None,
                     vr_error = Some e\<rparr>"

definition describe_handler ::
  "capture_env \<Rightarrow> (VisionProvider \<Rightarrow> string \<Rightarrow> string \<Rightarrow> string + string) \<Rightarrow> process_env \<Rightarrow>
   DescribeParams \<Rightarrow> registry \<Rightarrow> describe_response" where
  "describe_handler cap api penv params st =
     (let sessionId = d_session params; selector = d_selector params;
          fullPage = (case d_fullPage params of None \<Rightarrow> False | Some b \<Rightarrow> b);
          prompt = d_prompt params
      in
      if \<not> isConfigured penv then DescribeResult not_configured
      else
        (case getSession st sessionId of
           None \<Rightarrow>
             DescribeSessionNotFound (''Session '' @ quoted sessionId @ '' not found'')
               (listSessions st)
         | Some session \<Rightarrow>
             (case (if truthy selector
                    then (case locator_count cap (page session) (str selector) of
                            Inl e \<Rightarrow> Inl e
                          | Inr count \<Rightarrow>
                              if count = 0 then Inl (''Element not found: '' @ str selector)
                              else element_screenshot cap (page session) (str selector))
                    else page_screenshot cap (page session) fullPage) of
                Inl e \<Rightarrow> describe_failure e
              | Inr base64Image \<Rightarrow> DescribeResult (describeImage api penv base64Image prompt))))"

section \<open>The invariant of the buffers\<close>

text \<open>Every console and network buffer reachable through the heap is within the cap.\<close>

definition buffers_bounded :: "registry \<Rightarrow> bool" where
  "buffers_bounded st =
     (\<forall>d. length (console (heap st d)) \<le> MAX_BUFFER_SIZE \<and>
          length (network (heap st d)) \<le> MAX_BUFFER_SIZE)"

section \<open>Example inputs\<close>

text \<open>
  An engine for which every call resolves, opening a page that emits no event while
  it loads (the blank page), and one that cannot reach the URL: the navigation
  request fails and \<^verbatim>\<open>page.goto\<close> rejects.
\<close>

definition ok_open_env :: open_env where
  "ok_open_env =
     \<lparr>isConnected = True, launch_rejects = None, newPage_rejects = None,
      setViewportSize_rejects = None, goto_events = [], goto_rejects = None,
      open_now = 1000\<rparr>"

definition nav_request :: Request where
  "nav_request =
     \<lparr>req_ref = 20, req_url = ''http://nonexistent.invalid/'', req_method = ''GET'',
      req_failure = Some ''net::ERR_NAME_NOT_RESOLVED''\<rparr>"

definition unreachable_env :: open_env where
  "unreachable_env =
     ok_open_env\<lparr>goto_events := [RequestEvent nav_request 900 900,
                                 RequestFailedEvent nav_request 905 905],
                 goto_rejects := Some ''net::ERR_NAME_NOT_RESOLVED''\<rparr>"

definition ok_close_env :: close_env where
  "ok_close_env = \<lparr>page_close_rejects = None, browser_close_rejects = None\<rparr>"

definition quiet_engine :: engine where
  "quiet_engine =
     \<lparr>rejects = (\<lambda>_ _. None), url_after = (\<lambda>_. ''about:blank''), title_after = (\<lambda>_. [])\<rparr>"

text \<open>A registry with one session \<open>s\<close> (browser 0, page 1, diagnostics 2).\<close>

definition one_session :: registry where
  "one_session = snd (openSession ok_open_env ''s'' ''about:blank'' initial_registry)"

definition log_message :: ConsoleMessage where
  "log_message =
     \<lparr>msg_type = ''log'', msg_text = ''ready'', location_url = [], location_lineNumber = 0\<rparr>"

definition log_entry :: ConsoleEntry where
  "log_entry =
     \<lparr>ce_level = ''log'', ce_text = ''ready'', ce_url = None, ce_line = None,
      ce_timestamp = 1001\<rparr>"

definition one_log :: registry where
  "one_log = on_console 2 log_message 1001 one_session"

definition error_message :: ConsoleMessage where
  "error_message =
     \<lparr>msg_type = ''error'', msg_text = ''boom'', location_url = ''http://localhost/app.js'',
      location_lineNumber = 7\<rparr>"

definition error_entry :: ConsoleEntry where
  "error_entry =
     \<lparr>ce_level = ''error'', ce_text = ''boom'', ce_url = Some ''http://localhost/app.js'',
      ce_line = Some 7, ce_timestamp = 1002\<rparr>"

definition two_logs :: registry where
  "two_logs = on_console 2 error_message 1002 one_log"

definition the_session :: Session where
  "the_session = \<lparr>session_id = ''s'', page = 1, createdAt = 1000, diagnostics = 2\<rparr>"

text \<open>Two requests for the same URL in the same millisecond, so with the same correlation id.\<close>

definition req_a :: Request where
  "req_a = \<lparr>req_ref = 10, req_url = ''http://localhost/api'', req_method = ''GET'',
     req_failure = None\<rparr>"

definition req_b :: Request where
  "req_b = \<lparr>req_ref = 11, req_url = ''http://localhost/api'', req_method = ''GET'',
     req_failure = None\<rparr>"

definition two_pending :: registry where
  "two_pending = on_request req_b 5000 5000 (on_request req_a 5000 5000 one_session)"

definition first_answered :: registry where
  "first_answered = on_response 2 req_a 200 5040 5040 two_pending"

text \<open>
  The session after two console messages and one answered request: two console
  entries and one network entry.
\<close>

definition api_entry :: NetworkEntry where
  "api_entry =
     \<lparr>ne_method = ''GET'', ne_url = ''http://localhost/api'', ne_status = Some 200,
      ne_duration = Some 30, ne_error = None, ne_timestamp = 1040\<rparr>"

definition busy :: registry where
  "busy = on_response 2 req_a 200 1040 1040 (on_request req_a 1010 1010 two_logs)"




definition action_params ::
  "string \<Rightarrow> string option \<Rightarrow> string option \<Rightarrow> string option \<Rightarrow> ActionParams" where
  "action_params type selector value url =
     \<lparr>a_type = type, a_selector = selector, a_value = value, a_url = url\<rparr>"

text \<open>The result of a press that went through, reporting the URL \<open>u\<close>.\<close>

definition press_result :: "string \<Rightarrow> ActionResult" where
  "press_result u =
     \<lparr>ar_success = True, ar_action = ''press'', ar_url = Some u, ar_title = None,
      ar_selector = None, ar_direction = None, ar_error = None\<rparr>"

text \<open>Five steps whose second one throws (a click without selector).\<close>

definition five_steps :: "string step list" where
  "five_steps =
     [Action (action_params ''fill'' (Some ''#name'') (Some ''Ada'') None),
      Action (action_params ''click'' None None None),
      Action (action_params ''navigate'' None None (Some ''http://localhost/done'')),
      Assertion ''element_exists #ok'',
      Action (action_params ''press'' None (Some ''Enter'') None)]"

definition always_true :: "page_op list \<Rightarrow> string \<Rightarrow> string + bool" where
  "always_true log condition = Inr True"

definition read_params :: "string \<Rightarrow> string option \<Rightarrow> int option \<Rightarrow> bool option \<Rightarrow> DiagnosticsParams" where
  "read_params type level limit clear =
     \<lparr>p_session = ''s'', p_type = Some type, p_level = level, p_limit = limit, p_clear = clear\<rparr>"

section \<open>Properties of the diagnostics buffer\<close>

lemma drop_cap_append:
  "drop (length (drop (length xs - M) xs @ es) - M) (drop (length xs - M) xs @ es) =
   drop (length (xs @ es) - M) (xs @ es)"
proof -
  define k where "k = length xs - M"
  have 1: "drop k xs @ es = drop k (xs @ es)" by (simp add: k_def)
  have 2: "length (drop k (xs @ es)) - M + k = length (xs @ es) - M" by (auto simp: k_def)
  have "drop (length (drop k (xs @ es)) - M) (drop k (xs @ es)) = drop (length (xs @ es) - M) (xs @ es)"
    unfolding drop_drop 2 ..
  then show ?thesis unfolding k_def [symmetric] 1 .
qed

lemma addToBuffer_drop:
  "length buffer \<le> MAX_BUFFER_SIZE \<Longrightarrow>
   addToBuffer buffer e = drop (length (buffer @ [e]) - MAX_BUFFER_SIZE) (buffer @ [e])"
proof (cases "length buffer = MAX_BUFFER_SIZE")
  case True
  then have ne: "buffer \<noteq> []" by (auto simp: MAX_BUFFER_SIZE_def)
  have "addToBuffer buffer e = tl (buffer @ [e])"
    using True by (simp add: addToBuffer_def)
  also have "\<dots> = drop 1 (buffer @ [e])" using ne by (cases buffer) simp_all
  finally show ?thesis using True by simp
next
  case False
  assume "length buffer \<le> MAX_BUFFER_SIZE"
  with False have "length buffer < MAX_BUFFER_SIZE" by simp
  then show ?thesis by (simp add: addToBuffer_def)
qed

lemma addToBuffer_length:
  "length buffer \<le> MAX_BUFFER_SIZE \<Longrightarrow> length (addToBuffer buffer e) \<le> MAX_BUFFER_SIZE"
  by (simp add: addToBuffer_def Let_def)

lemma foldl_addToBuffer:
  "length buffer \<le> MAX_BUFFER_SIZE \<Longrightarrow>
   length (foldl addToBuffer buffer es) \<le> MAX_BUFFER_SIZE \<and>
   foldl addToBuffer buffer es =
     drop (length (buffer @ es) - MAX_BUFFER_SIZE) (buffer @ es)"
proof (induction es arbitrary: buffer)
  case Nil
  then show ?case by simp
next
  case (Cons e es)
  let ?b = "addToBuffer buffer e"
  have len: "length ?b \<le> MAX_BUFFER_SIZE"
    using Cons.prems by (rule addToBuffer_length)
  have b: "?b = drop (length (buffer @ [e]) - MAX_BUFFER_SIZE) (buffer @ [e])"
    using Cons.prems by (rule addToBuffer_drop)
  have "drop (length (?b @ es) - MAX_BUFFER_SIZE) (?b @ es) =
      drop (length ((buffer @ [e]) @ es) - MAX_BUFFER_SIZE) ((buffer @ [e]) @ es)"
    unfolding b by (rule drop_cap_append)
  with Cons.IH [OF len] show ?case by simp
qed

lemma last_addToBuffer: "last (addToBuffer buffer e) = e"
proof (cases buffer)
  case Nil
  then show ?thesis by (simp add: addToBuffer_def Let_def MAX_BUFFER_SIZE_def)
next
  case (Cons x xs)
  then show ?thesis by (simp add: addToBuffer_def Let_def last_tl)
qed

text \<open>
  Claim C1. Starting from any buffer within the cap (a new session's buffers are
  empty, and clearing resets a buffer to empty), after every sequence of insertions
  the buffer holds at most 100 entries, and it is exactly the last 100 (or fewer)
  of everything that arrived, in arrival order; an insertion into a full buffer
  removes the oldest entry and appends the new one at the end.
\<close>

theorem addToBuffer_keeps_most_recent:
  assumes "length buffer \<le> MAX_BUFFER_SIZE"
  shows "length (foldl addToBuffer buffer es) \<le> 100 \<and>
    foldl addToBuffer buffer es = drop (length (buffer @ es) - 100) (buffer @ es) \<and>
    (length buffer = 100 \<longrightarrow> addToBuffer buffer e = tl buffer @ [e]) \<and>
    (length buffer < 100 \<longrightarrow> addToBuffer buffer e = buffer @ [e])"
proof -
  have "length (foldl addToBuffer buffer es) \<le> 100"
    using foldl_addToBuffer [OF assms, of es] by (simp add: MAX_BUFFER_SIZE_def)
  moreover have "foldl addToBuffer buffer es = drop (length (buffer @ es) - 100) (buffer @ es)"
    using foldl_addToBuffer [OF assms, of es] by (simp add: MAX_BUFFER_SIZE_def)
  moreover have "length buffer = 100 \<longrightarrow> addToBuffer buffer e = tl buffer @ [e]"
    by (cases buffer) (simp_all add: addToBuffer_def MAX_BUFFER_SIZE_def)
  moreover have "length buffer < 100 \<longrightarrow> addToBuffer buffer e = buffer @ [e]"
    by (simp add: addToBuffer_def MAX_BUFFER_SIZE_def)
  ultimately show ?thesis by blast
qed

theorem addToBuffer_keeps_most_recent_witness:
  "length (replicate 100 (0::nat)) \<le> MAX_BUFFER_SIZE \<and>
   length (foldl addToBuffer (replicate 100 (0::nat)) [1, 2]) \<le> 100 \<and>
   foldl addToBuffer (replicate 100 (0::nat)) [1, 2] = replicate 98 0 @ [1, 2] \<and>
   addToBuffer (replicate 100 (0::nat)) 7 = replicate 99 0 @ [7]"
  using addToBuffer_keeps_most_recent [of "replicate 100 (0::nat)" "[1, 2]" 7]
  by (simp add: MAX_BUFFER_SIZE_def)

text \<open>Every operation of the registry keeps every buffer within the cap, so the
  hypothesis above holds of each buffer of each reachable registry.\<close>

lemma buffers_bounded_initial: "buffers_bounded initial_registry"
  by (simp add: buffers_bounded_def initial_registry_def empty_diagnostics_def)

lemma buffers_bounded_on_console:
  "buffers_bounded st \<Longrightarrow> buffers_bounded (on_console d msg stamp st)"
  by (simp add: buffers_bounded_def on_console_def Let_def addToBuffer_length)

lemma buffers_bounded_on_request:
  "buffers_bounded st \<Longrightarrow> buffers_bounded (on_request req now_id now_start st)"
  by (simp add: buffers_bounded_def on_request_def Let_def)

lemma buffers_bounded_record_network:
  "buffers_bounded st \<Longrightarrow> buffers_bounded (record_network d e st)"
  by (simp add: buffers_bounded_def record_network_def addToBuffer_length)

lemma buffers_bounded_delete_pending:
  "buffers_bounded st \<Longrightarrow> buffers_bounded (delete_pending st req)"
  by (simp add: buffers_bounded_def delete_pending_def)

lemma buffers_bounded_on_response:
  "buffers_bounded st \<Longrightarrow> buffers_bounded (on_response d req status now stamp st)"
  by (simp add: on_response_def Let_def buffers_bounded_record_network
      buffers_bounded_delete_pending)

lemma buffers_bounded_on_requestfailed:
  "buffers_bounded st \<Longrightarrow> buffers_bounded (on_requestfailed d req now stamp st)"
  by (simp add: on_requestfailed_def Let_def buffers_bounded_record_network
      buffers_bounded_delete_pending)

lemma buffers_bounded_deliver:
  "buffers_bounded st \<Longrightarrow> buffers_bounded (deliver d st ev)"
  by (cases ev)
    (simp_all add: buffers_bounded_on_console buffers_bounded_on_request
      buffers_bounded_on_response buffers_bounded_on_requestfailed)

lemma buffers_bounded_foldl_deliver:
  "buffers_bounded st \<Longrightarrow> buffers_bounded (foldl (deliver d) st evs)"
  by (induction evs arbitrary: st) (simp_all add: buffers_bounded_deliver)

lemma listener_frame:
  "browser (on_console d msg stamp st) = browser st"
  "sessions (on_console d msg stamp st) = sessions st"
  "pages (on_console d msg stamp st) = pages st"
  "browser (on_request req now_id now_start st) = browser st"
  "sessions (on_request req now_id now_start st) = sessions st"
  "pages (on_request req now_id now_start st) = pages st"
  "browser (on_response d req status now stamp st) = browser st"
  "sessions (on_response d req status now stamp st) = sessions st"
  "pages (on_response d req status now stamp st) = pages st"
  "browser (on_requestfailed d req now stamp st) = browser st"
  "sessions (on_requestfailed d req now stamp st) = sessions st"
  "pages (on_requestfailed d req now stamp st) = pages st"
  by (simp_all add: on_console_def on_request_def on_response_def on_requestfailed_def
      delete_pending_def record_network_def Let_def)

lemma deliver_frame:
  "browser (deliver d st ev) = browser st"
  "sessions (deliver d st ev) = sessions st"
  "pages (deliver d st ev) = pages st"
  "next_ref (deliver d st ev) = next_ref st"
  "headless (deliver d st ev) = headless st"
  by (cases ev;
      simp add: on_console_def on_request_def on_response_def on_requestfailed_def
        delete_pending_def record_network_def Let_def)+

lemma foldl_deliver_frame:
  "browser (foldl (deliver d) st evs) = browser st"
  "sessions (foldl (deliver d) st evs) = sessions st"
  "pages (foldl (deliver d) st evs) = pages st"
  "next_ref (foldl (deliver d) st evs) = next_ref st"
  "headless (foldl (deliver d) st evs) = headless st"
  by (induction evs arbitrary: st; simp add: deliver_frame)+

lemma buffers_bounded_fields:
  "buffers_bounded (st\<lparr>browser := b\<rparr>) = buffers_bounded st"
  "buffers_bounded (st\<lparr>sessions := s\<rparr>) = buffers_bounded st"
  "buffers_bounded (st\<lparr>pages := p\<rparr>) = buffers_bounded st"
  "buffers_bounded (st\<lparr>next_ref := n\<rparr>) = buffers_bounded st"
  by (simp_all add: buffers_bounded_def)

lemma buffers_bounded_new_diagnostics:
  "buffers_bounded st \<Longrightarrow> heap st' = (heap st)(d := empty_diagnostics) \<Longrightarrow> buffers_bounded st'"
  by (simp add: buffers_bounded_def empty_diagnostics_def)

lemma buffers_bounded_launch:
  "buffers_bounded st \<Longrightarrow> buffers_bounded (snd (launch env st))"
  by (simp add: launch_def buffers_bounded_fields split: option.split)

lemma buffers_bounded_ensureBrowser:
  "buffers_bounded st \<Longrightarrow> buffers_bounded (snd (ensureBrowser env st))"
  by (simp add: ensureBrowser_def buffers_bounded_launch split: option.split)

lemma buffers_bounded_openSession:
  assumes "buffers_bounded st"
  shows "buffers_bounded (snd (openSession env name url st))"
proof -
  obtain r st1 where e: "ensureBrowser env st = (r, st1)"
    by (cases "ensureBrowser env st")
  have b1: "buffers_bounded st1"
    using buffers_bounded_ensureBrowser [OF assms, of env] e by simp
  have b3: "buffers_bounded (foldl (deliver (Suc (next_ref st1)))
      (st1\<lparr>pages := pages st1 @ [next_ref st1],
           heap := (heap st1)(Suc (next_ref st1) := empty_diagnostics),
           next_ref := Suc (Suc (next_ref st1))\<rparr>) evs)" for evs
    by (rule buffers_bounded_foldl_deliver, rule buffers_bounded_new_diagnostics [OF b1]) simp
  show ?thesis
    using assms b1 b3 e
    by (auto simp: openSession_def Let_def buffers_bounded_fields
        split: option.splits sum.splits)
qed

lemma buffers_bounded_closeSession:
  "buffers_bounded st \<Longrightarrow> buffers_bounded (snd (closeSession env name st))"
  by (auto simp: buffers_bounded_def closeSession_def Let_def split: option.splits)

lemma buffers_bounded_diagnostics_handler:
  "buffers_bounded st \<Longrightarrow> buffers_bounded (snd (diagnostics_handler params st))"
  by (auto simp: buffers_bounded_def diagnostics_handler_def Let_def clear_console_def
      clear_network_def split: option.splits)

section \<open>The example registries\<close>

lemma one_session_eval: "sessions one_session = [(''s'', the_session)] \<and> browser one_session = Some 0 \<and> pages one_session = [1] \<and> next_ref one_session = 3"
  by (simp add: one_session_def openSession_def initial_registry_def ok_open_env_def ensureBrowser_def launch_def Let_def the_session_def)

lemma one_log_sessions: "sessions one_log = [(''s'', the_session)]"
  by (simp add: one_log_def on_console_def one_session_eval Let_def)

lemma one_log_console: "console (heap one_log 2) = [log_entry]"
  by (simp add: one_log_def on_console_def one_session_def openSession_def initial_registry_def ok_open_env_def ensureBrowser_def launch_def Let_def log_message_def log_entry_def addToBuffer_def MAX_BUFFER_SIZE_def empty_diagnostics_def)

lemma one_log_network: "network (heap one_log 2) = []"
  by (simp add: one_log_def on_console_def one_session_def openSession_def initial_registry_def ok_open_env_def ensureBrowser_def launch_def Let_def empty_diagnostics_def)

lemma two_logs_sessions: "sessions two_logs = [(''s'', the_session)]"
  by (simp add: two_logs_def on_console_def one_log_sessions Let_def)

lemma two_logs_console: "console (heap two_logs 2) = [log_entry, error_entry]"
  by (simp add: two_logs_def on_console_def one_log_console Let_def error_message_def
      error_entry_def addToBuffer_def MAX_BUFFER_SIZE_def)

lemma two_logs_network: "network (heap two_logs 2) = []"
  by (simp add: two_logs_def on_console_def one_log_network Let_def)

lemma two_logs_getSession: "getSession two_logs ''s'' = Some the_session"
  by (simp add: getSession_def two_logs_sessions)

lemma busy_sessions: "sessions busy = [(''s'', the_session)]"
  by (simp add: busy_def listener_frame two_logs_sessions)

lemma busy_getSession: "getSession busy ''s'' = Some the_session"
  by (simp add: getSession_def busy_sessions)

lemma busy_console: "console (heap busy 2) = [log_entry, error_entry]"
  by (simp add: busy_def on_response_def on_request_def delete_pending_def record_network_def
      Let_def two_logs_console)

lemma busy_network: "network (heap busy 2) = [api_entry]"
  by (simp add: busy_def on_response_def on_request_def delete_pending_def record_network_def
      lookup_pending_def truthy_def str_def req_a_def api_entry_def
      Let_def two_logs_network addToBuffer_def MAX_BUFFER_SIZE_def)

section \<open>Properties of the diagnostics tool\<close>

lemma slice_neg: "1 \<le> n \<Longrightarrow> slice xs (- n) = drop (length xs - nat n) xs"
  by (auto simp: slice_def Let_def max_def nat_diff_distrib intro!: arg_cong2[where f=drop])

lemma rev_slice_neg: "1 \<le> n \<Longrightarrow> rev (slice xs (- n)) = take (nat n) (rev xs)"
  by (simp add: slice_neg take_rev)

lemma length_slice: "length (slice xs k) \<le> length xs"
  by (simp add: slice_def Let_def)

lemma read_network_limit: "1 \<le> n \<Longrightarrow> read_network n buffer = take (nat n) (rev buffer)"
  by (simp add: read_network_def rev_slice_neg)

lemma read_console_limit:
  "1 \<le> n \<Longrightarrow> read_console level n buffer = take (nat n) (rev (filter_level level buffer))"
  by (simp add: read_console_def rev_slice_neg)

lemma length_filter_level: "length (filter_level level buffer) \<le> length buffer"
  by (simp add: filter_level_def)

lemma read_console_Nil: "read_console level limit [] = []"
  by (simp add: read_console_def filter_level_def slice_def)

lemma read_network_Nil: "read_network limit [] = []"
  by (simp add: read_network_def slice_def)

lemma read_console_at_most_buffer: "length (read_console level limit buffer) \<le> length buffer"
proof -
  have "length (read_console level limit buffer) \<le> length (filter_level level buffer)"
    by (simp add: read_console_def length_slice)
  also have "\<dots> \<le> length buffer" by (rule length_filter_level)
  finally show ?thesis .
qed

lemma read_network_at_most_buffer: "length (read_network limit buffer) \<le> length buffer"
  by (simp add: read_network_def length_slice)

lemma handler_found:
  assumes "getSession st (p_session params) = Some s"
  shows "fst (diagnostics_handler params st) =
    Diagnostics (p_session params) (param_type params)
      (if param_type params = ''console'' \<or> param_type params = ''all''
       then Some (read_console (p_level params) (param_limit params) (console (heap st (diagnostics s))))
       else None)
      (if param_type params = ''network'' \<or> param_type params = ''all''
       then Some (read_network (param_limit params) (network (heap st (diagnostics s))))
       else None)"
  using assms
  by (simp add: diagnostics_handler_def Let_def param_type_def param_limit_def clear_console_def)

lemma handler_state:
  assumes "getSession st (p_session params) = Some s"
  shows "snd (diagnostics_handler params st) =
    (if (param_type params = ''network'' \<or> param_type params = ''all'') \<and> param_clear params
     then clear_network (diagnostics s) else id)
    ((if (param_type params = ''console'' \<or> param_type params = ''all'') \<and> param_clear params
     then clear_console (diagnostics s) else id) st)"
  using assms
  by (simp add: diagnostics_handler_def Let_def param_type_def param_clear_def)

lemma getSession_clear [simp]:
  "getSession (clear_console d st) name = getSession st name"
  "getSession (clear_network d st) name = getSession st name"
  by (simp_all add: getSession_def clear_console_def clear_network_def)

text \<open>
  Claim C2, amended. For a read of an existing session with a limit \<open>N \<ge> 1\<close> (the
  default is 50), each returned list is the first \<open>N\<close> entries of the reversed
  buffer, that is the \<open>min N m\<close> most recent entries, most recent first, where
  \<open>m\<close> is the number of entries the read considers: for the network buffer and for
  a console read without a level, the size of the buffer; for a console read with a
  level, the number of buffered entries of that level. So a result never has more
  than \<open>N\<close> entries, nor more than the buffer holds.
\<close>

theorem diagnostics_read_limit:
  assumes "getSession st (p_session params) = Some s" and "1 \<le> param_limit params"
  shows "fst (diagnostics_handler params st) =
      Diagnostics (p_session params) (param_type params)
        (if param_type params = ''console'' \<or> param_type params = ''all''
         then Some (take (nat (param_limit params))
                (rev (filter_level (p_level params) (console (heap st (diagnostics s))))))
         else None)
        (if param_type params = ''network'' \<or> param_type params = ''all''
         then Some (take (nat (param_limit params)) (rev (network (heap st (diagnostics s)))))
         else None) \<and>
    length (take (nat (param_limit params))
        (rev (filter_level (p_level params) (console (heap st (diagnostics s)))))) =
      min (nat (param_limit params))
        (length (filter_level (p_level params) (console (heap st (diagnostics s))))) \<and>
    length (take (nat (param_limit params)) (rev (network (heap st (diagnostics s))))) =
      min (nat (param_limit params)) (length (network (heap st (diagnostics s)))) \<and>
    length (filter_level (p_level params) (console (heap st (diagnostics s)))) \<le>
      length (console (heap st (diagnostics s))) \<and>
    (\<not> truthy (p_level params) \<longrightarrow>
      filter_level (p_level params) (console (heap st (diagnostics s))) =
        console (heap st (diagnostics s)))"
proof -
  have "fst (diagnostics_handler params st) =
      Diagnostics (p_session params) (param_type params)
        (if param_type params = ''console'' \<or> param_type params = ''all''
         then Some (take (nat (param_limit params))
                (rev (filter_level (p_level params) (console (heap st (diagnostics s))))))
         else None)
        (if param_type params = ''network'' \<or> param_type params = ''all''
         then Some (take (nat (param_limit params)) (rev (network (heap st (diagnostics s)))))
         else None)"
    using assms by (simp add: handler_found read_console_limit read_network_limit)
  moreover have "\<not> truthy (p_level params) \<longrightarrow>
      filter_level (p_level params) (console (heap st (diagnostics s))) =
        console (heap st (diagnostics s))"
    by (simp add: filter_level_def)
  ultimately show ?thesis
    by (simp only: length_take length_rev min.commute length_filter_level simp_thms)
qed

theorem diagnostics_read_limit_witness:
  "getSession two_logs (p_session (read_params ''all'' None (Some 1) None)) = Some the_session \<and>
   1 \<le> param_limit (read_params ''all'' None (Some 1) None) \<and>
   fst (diagnostics_handler (read_params ''all'' None (Some 1) None) two_logs) =
     Diagnostics ''s'' ''all'' (Some [error_entry]) (Some [])"
  using diagnostics_read_limit [of two_logs "read_params ''all'' None (Some 1) None" the_session]
  by (simp add: read_params_def param_limit_def param_type_def two_logs_getSession
      two_logs_console two_logs_network the_session_def filter_level_def truthy_def)

text \<open>
  The claim as stated fails on a read filtered by level (one of two buffered entries
  is returned under limit 50) and on a read with limit 0, which returns the whole
  buffer: \<^verbatim>\<open>slice(-0)\<close> is \<^verbatim>\<open>slice(0)\<close>.
\<close>

theorem diagnostics_read_limit_counterexample:
  "fst (diagnostics_handler (read_params ''console'' (Some ''error'') (Some 50) None) two_logs) =
     Diagnostics ''s'' ''console'' (Some [error_entry]) None \<and>
   int (length [error_entry]) \<noteq> min 50 (int (length (console (heap two_logs 2)))) \<and>
   fst (diagnostics_handler (read_params ''console'' None (Some 0) None) two_logs) =
     Diagnostics ''s'' ''console'' (Some [error_entry, log_entry]) None \<and>
   int (length [error_entry, log_entry]) \<noteq> min 0 (int (length (console (heap two_logs 2))))"
  by (simp add: handler_found [where s = the_session] read_params_def param_limit_def param_type_def
      two_logs_console two_logs_network the_session_def filter_level_def truthy_def str_def
      read_console_def slice_def log_entry_def error_entry_def two_logs_getSession)

text \<open>With limit 0 an unfiltered console read returns every buffered entry.\<close>

lemma diagnostics_limit_zero_returns_all:
  "getSession st (p_session params) = Some s \<Longrightarrow> p_limit params = Some 0 \<Longrightarrow> p_level params = None \<Longrightarrow>
   p_type params = Some ''console'' \<Longrightarrow>
   fst (diagnostics_handler params st) =
     Diagnostics (p_session params) ''console'' (Some (rev (console (heap st (diagnostics s))))) None"
  by (simp add: handler_found param_type_def param_limit_def read_console_def slice_def
      filter_level_def truthy_def)

text \<open>Whatever the limit, a read never returns more than 100 entries of a kind.\<close>

lemma diagnostics_read_at_most_cap:
  assumes "buffers_bounded st"
    and "fst (diagnostics_handler params st) = Diagnostics sid type rc rn"
  shows "(\<forall>entries. rc = Some entries \<longrightarrow> length entries \<le> 100) \<and>
    (\<forall>entries. rn = Some entries \<longrightarrow> length entries \<le> 100)"
proof (cases "getSession st (p_session params)")
  case None
  with assms(2) show ?thesis by (simp add: diagnostics_handler_def Let_def)
next
  case (Some s)
  have c: "length (read_console (p_level params) (param_limit params)
      (console (heap st (diagnostics s)))) \<le> 100"
    using read_console_at_most_buffer [of "p_level params" "param_limit params"
        "console (heap st (diagnostics s))"] assms(1)
    by (auto simp: buffers_bounded_def MAX_BUFFER_SIZE_def intro: order_trans)
  have n: "length (read_network (param_limit params) (network (heap st (diagnostics s)))) \<le> 100"
    using read_network_at_most_buffer [of "param_limit params"
        "network (heap st (diagnostics s))"] assms(1)
    by (auto simp: buffers_bounded_def MAX_BUFFER_SIZE_def intro: order_trans)
  from assms(2) c n show ?thesis
    by (auto simp: handler_found [OF Some] split: if_splits)
qed

text \<open>
  Claim C3, amended. A call with \<open>clear = true\<close> on an existing session computes
  what it returns from the buffers as they were before the clear: it returns exactly
  what the same call without \<open>clear\<close> returns, and that call changes nothing. For
  a limit \<open>N \<ge> 1\<close> each returned list is the \<open>N\<close> most recent entries, most
  recent first, of the buffer before the clear (for the console, of its entries of
  the requested level when a level is given). Each buffer kind selected by the type
  is then emptied whole, the entries that the limit or the level kept out of the
  result included, and the other kind is as it was. A following read of the same
  type, with any level and limit, returns empty lists, and nothing else of the
  registry has changed.
\<close>

theorem read_then_clear:
  assumes "getSession st (p_session params) = Some s" and "p_clear params = Some True"
  shows "(1 \<le> param_limit params \<longrightarrow>
      fst (diagnostics_handler params st) =
        Diagnostics (p_session params) (param_type params)
          (if param_type params = ''console'' \<or> param_type params = ''all''
           then Some (take (nat (param_limit params))
                  (rev (if truthy (p_level params)
                        then filter (\<lambda>e. ce_level e = str (p_level params))
                               (console (heap st (diagnostics s)))
                        else console (heap st (diagnostics s)))))
           else None)
          (if param_type params = ''network'' \<or> param_type params = ''all''
           then Some (take (nat (param_limit params)) (rev (network (heap st (diagnostics s)))))
           else None)) \<and>
    fst (diagnostics_handler params st) =
      fst (diagnostics_handler (params\<lparr>p_clear := Some False\<rparr>) st) \<and>
    snd (diagnostics_handler (params\<lparr>p_clear := Some False\<rparr>) st) = st \<and>
    console (heap (snd (diagnostics_handler params st)) (diagnostics s)) =
      (if param_type params = ''console'' \<or> param_type params = ''all'' then []
       else console (heap st (diagnostics s))) \<and>
    network (heap (snd (diagnostics_handler params st)) (diagnostics s)) =
      (if param_type params = ''network'' \<or> param_type params = ''all'' then []
       else network (heap st (diagnostics s))) \<and>
    fst (diagnostics_handler (params\<lparr>p_level := level', p_limit := limit', p_clear := clear'\<rparr>)
        (snd (diagnostics_handler params st))) =
      Diagnostics (p_session params) (param_type params)
        (if param_type params = ''console'' \<or> param_type params = ''all'' then Some [] else None)
        (if param_type params = ''network'' \<or> param_type params = ''all'' then Some [] else None) \<and>
    (\<forall>r. r \<noteq> diagnostics s \<longrightarrow> heap (snd (diagnostics_handler params st)) r = heap st r) \<and>
    sessions (snd (diagnostics_handler params st)) = sessions st \<and>
    browser (snd (diagnostics_handler params st)) = browser st \<and>
    pendingRequests (snd (diagnostics_handler params st)) = pendingRequests st"
proof -
  let ?d = "diagnostics s"
  let ?st' = "snd (diagnostics_handler params st)"
  have clear: "param_clear params" using assms(2) by (simp add: param_clear_def)
  have st': "?st' =
    (if param_type params = ''network'' \<or> param_type params = ''all''
     then clear_network ?d else id)
    ((if param_type params = ''console'' \<or> param_type params = ''all''
     then clear_console ?d else id) st)"
    using handler_state [OF assms(1)] clear by simp
  have found': "getSession ?st' (p_session params) = Some s"
    using assms(1) by (simp add: st')
  have c: "console (heap ?st' ?d) =
      (if param_type params = ''console'' \<or> param_type params = ''all'' then []
       else console (heap st ?d))"
    by (simp add: st' clear_console_def clear_network_def)
  have n: "network (heap ?st' ?d) =
      (if param_type params = ''network'' \<or> param_type params = ''all'' then []
       else network (heap st ?d))"
    by (simp add: st' clear_console_def clear_network_def)
  have 0: "1 \<le> param_limit params \<longrightarrow>
      fst (diagnostics_handler params st) =
        Diagnostics (p_session params) (param_type params)
          (if param_type params = ''console'' \<or> param_type params = ''all''
           then Some (take (nat (param_limit params))
                  (rev (if truthy (p_level params)
                        then filter (\<lambda>e. ce_level e = str (p_level params))
                               (console (heap st ?d))
                        else console (heap st ?d))))
           else None)
          (if param_type params = ''network'' \<or> param_type params = ''all''
           then Some (take (nat (param_limit params)) (rev (network (heap st ?d))))
           else None)"
    using assms(1)
    by (simp add: handler_found read_console_limit read_network_limit filter_level_def)
  have 1: "fst (diagnostics_handler params st) =
      fst (diagnostics_handler (params\<lparr>p_clear := Some False\<rparr>) st)"
    using assms(1) by (simp add: handler_found param_type_def param_limit_def)
  have 2: "snd (diagnostics_handler (params\<lparr>p_clear := Some False\<rparr>) st) = st"
    using assms(1) by (simp add: handler_state param_clear_def)
  have 5: "fst (diagnostics_handler (params\<lparr>p_level := level', p_limit := limit', p_clear := clear'\<rparr>) ?st') =
      Diagnostics (p_session params) (param_type params)
        (if param_type params = ''console'' \<or> param_type params = ''all'' then Some [] else None)
        (if param_type params = ''network'' \<or> param_type params = ''all'' then Some [] else None)"
    using found' by (simp add: handler_found param_type_def c n read_console_Nil read_network_Nil)
  have 6: "\<forall>r. r \<noteq> ?d \<longrightarrow> heap ?st' r = heap st r"
    by (simp add: st' clear_console_def clear_network_def)
  have 7: "sessions ?st' = sessions st" "browser ?st' = browser st"
    "pendingRequests ?st' = pendingRequests st"
    by (simp_all add: st' clear_console_def clear_network_def)
  from 0 1 2 c n 5 6 7 show ?thesis by blast
qed

theorem read_then_clear_witness:
  "getSession busy (p_session (read_params ''console'' None (Some 1) (Some True))) =
     Some the_session \<and>
   p_clear (read_params ''console'' None (Some 1) (Some True)) = Some True \<and>
   console (heap busy 2) = [log_entry, error_entry] \<and>
   network (heap busy 2) = [api_entry] \<and>
   fst (diagnostics_handler (read_params ''console'' None (Some 1) (Some True)) busy) =
     Diagnostics ''s'' ''console'' (Some [error_entry]) None \<and>
   console (heap (snd (diagnostics_handler (read_params ''console'' None (Some 1) (Some True))
     busy)) 2) = [] \<and>
   network (heap (snd (diagnostics_handler (read_params ''console'' None (Some 1) (Some True))
     busy)) 2) = [api_entry] \<and>
   fst (diagnostics_handler (read_params ''console'' None None None)
     (snd (diagnostics_handler (read_params ''console'' None (Some 1) (Some True)) busy))) =
     Diagnostics ''s'' ''console'' (Some []) None \<and>
   fst (diagnostics_handler (read_params ''all'' None (Some 5) (Some True)) busy) =
     Diagnostics ''s'' ''all'' (Some [error_entry, log_entry]) (Some [api_entry]) \<and>
   console (heap (snd (diagnostics_handler (read_params ''all'' None (Some 5) (Some True))
     busy)) 2) = [] \<and>
   network (heap (snd (diagnostics_handler (read_params ''all'' None (Some 5) (Some True))
     busy)) 2) = []"
  using read_then_clear [of busy "read_params ''console'' None (Some 1) (Some True)" the_session
      None None None]
    read_then_clear [of busy "read_params ''all'' None (Some 5) (Some True)" the_session
      None None None]
  by (simp add: read_params_def param_limit_def param_type_def busy_getSession
      busy_console busy_network the_session_def truthy_def)

text \<open>
  The claim as stated has the returned entries be the contents of the buffer before
  the clear. With limit 1, or with the level \<open>error\<close>, the call returns one of the
  two buffered console entries and empties the buffer: the other entry is cleared
  without having been returned.
\<close>

theorem read_then_clear_counterexample:
  "console (heap busy 2) = [log_entry, error_entry] \<and>
   fst (diagnostics_handler (read_params ''console'' None (Some 1) (Some True)) busy) =
     Diagnostics ''s'' ''console'' (Some [error_entry]) None \<and>
   log_entry \<notin> set [error_entry] \<and>
   fst (diagnostics_handler (read_params ''console'' (Some ''error'') None (Some True)) busy) =
     Diagnostics ''s'' ''console'' (Some [error_entry]) None \<and>
   console (heap (snd (diagnostics_handler (read_params ''console'' None (Some 1) (Some True))
     busy)) 2) = [] \<and>
   console (heap (snd (diagnostics_handler (read_params ''console'' (Some ''error'') None
     (Some True)) busy)) 2) = []"
  by (simp add: handler_found [where s = the_session] handler_state [where s = the_session]
      busy_getSession busy_console read_params_def param_limit_def param_type_def
      param_clear_def the_session_def filter_level_def truthy_def str_def read_console_def
      slice_def log_entry_def error_entry_def clear_console_def)

section \<open>Properties of the registry\<close>

text \<open>
  Claim C4. When the name is already bound to a session, \<open>openSession\<close> fails with
  the message that the session already exists, and the registry (the sessions, the
  browser handle, the pages, the buffers) is returned unchanged.
\<close>

theorem duplicate_open_rejected:
  assumes "getSession st name = Some s"
  shows "openSession env name url st = (Inl (''Session '' @ quoted name @ '' already exists''), st)"
  using assms by (simp add: openSession_def getSession_def)

theorem duplicate_open_rejected_witness:
  "getSession one_session ''s'' = Some the_session \<and>
   openSession ok_open_env ''s'' ''http://example.org/'' one_session =
     (Inl ''Session 's' already exists'', one_session)"
  using duplicate_open_rejected [of one_session "''s''" the_session ok_open_env "''http://example.org/''"]
  by (simp add: getSession_def one_session_eval quoted_def)

text \<open>
  What the engine lifecycle does guarantee: the first open launches the browser, a
  later open reuses a connected one, a registry with a session always has a browser
  handle, and the close that removes the last session resets the handle.
\<close>

lemma open_starts_engine:
  assumes "getSession st name = None" and "browser st = None" and "launch_rejects env = None"
  shows "browser (snd (openSession env name url st)) = Some (next_ref st)"
  using assms
  by (simp add: openSession_def getSession_def ensureBrowser_def launch_def Let_def
      foldl_deliver_frame split: option.split)

lemma open_reuses_engine:
  assumes "browser st = Some b" and "isConnected env"
  shows "browser (snd (openSession env name url st)) = Some b"
  using assms
  by (simp add: openSession_def ensureBrowser_def Let_def foldl_deliver_frame
      split: option.split)

lemma open_keeps_engine_for_sessions:
  assumes "sessions st \<noteq> [] \<longrightarrow> browser st \<noteq> None"
  shows "sessions (snd (openSession env name url st)) \<noteq> [] \<longrightarrow>
    browser (snd (openSession env name url st)) \<noteq> None"
  using assms
  by (auto simp: openSession_def ensureBrowser_def launch_def Let_def foldl_deliver_frame
      split: option.splits if_splits)

lemma close_keeps_engine_for_sessions:
  assumes "sessions st \<noteq> [] \<longrightarrow> browser st \<noteq> None"
  shows "sessions (snd (closeSession env name st)) \<noteq> [] \<longrightarrow>
    browser (snd (closeSession env name st)) \<noteq> None"
  using assms
  by (auto simp: closeSession_def Let_def split: option.splits if_splits)

lemma close_last_releases_engine:
  assumes "closeSession env name st = (Inr True, st')" and "sessions st' = []"
  shows "browser st' = None"
  using assms
  by (auto simp: closeSession_def Let_def split: option.splits if_splits)

lemma close_unknown:
  "getSession st name = None \<Longrightarrow> closeSession env name st = (Inr False, st)"
  by (simp add: closeSession_def getSession_def)

text \<open>
  Claim C5, at an input where the code departs from it. The first \<open>openSession\<close> of
  a process, for a URL that cannot be reached: the browser is launched and stored,
  the page is created, the navigation rejects, and \<open>openSession\<close> rejects without
  registering a session and without closing the browser. The engine handle is then
  live although no session is open, and closing the name just used returns false and
  releases nothing.
\<close>

theorem failed_open_leaves_engine_running:
  "fst (openSession unreachable_env ''a'' ''http://nonexistent.invalid/'' initial_registry) =
     Inl ''net::ERR_NAME_NOT_RESOLVED'' \<and>
   browser initial_registry = None \<and>
   browser (snd (openSession unreachable_env ''a'' ''http://nonexistent.invalid/'' initial_registry)) =
     Some 0 \<and>
   sessions (snd (openSession unreachable_env ''a'' ''http://nonexistent.invalid/'' initial_registry)) =
     [] \<and>
   pages (snd (openSession unreachable_env ''a'' ''http://nonexistent.invalid/'' initial_registry)) =
     [1] \<and>
   closeSession ok_close_env ''a''
       (snd (openSession unreachable_env ''a'' ''http://nonexistent.invalid/'' initial_registry)) =
     (Inr False,
      snd (openSession unreachable_env ''a'' ''http://nonexistent.invalid/'' initial_registry))"
  by (simp add: openSession_def unreachable_env_def ok_open_env_def initial_registry_def
      ensureBrowser_def launch_def closeSession_def Let_def listener_frame)

section \<open>Properties of the network listeners\<close>

lemma network_record_network:
  "network (heap (record_network d e st) d) = addToBuffer (network (heap st d)) e"
  by (simp add: record_network_def)

lemma heap_delete_pending: "heap (delete_pending st req) = heap st"
  by (simp add: delete_pending_def)

lemma lookup_pending_record:
  "lookup_pending (record_network d e st) req = lookup_pending st req"
  by (simp add: lookup_pending_def record_network_def)

lemma lookup_pending_delete: "lookup_pending (delete_pending st req) req = None"
  by (simp add: lookup_pending_def delete_pending_def)

lemma pending_delete:
  "requestIds st (req_ref req) = Some rid \<Longrightarrow> rid \<noteq> [] \<Longrightarrow>
   pendingRequests (delete_pending st req) rid = None"
  by (simp add: delete_pending_def truthy_def str_def)

lemma requestIds_record: "requestIds (record_network d e st) = requestIds st"
  by (simp add: record_network_def)

lemma last_network_on_response:
  "last (network (heap (on_response d req status now stamp st) d)) =
     \<lparr>ne_method = req_method req, ne_url = req_url req, ne_status = Some status,
      ne_duration = (case lookup_pending st req of Some p \<Rightarrow> Some (now - start p) | None \<Rightarrow> None),
      ne_error = None, ne_timestamp = stamp\<rparr>"
  by (simp add: on_response_def Let_def heap_delete_pending network_record_network last_addToBuffer)

lemma last_network_on_requestfailed:
  "last (network (heap (on_requestfailed d req now stamp st) d)) =
     \<lparr>ne_method = req_method req, ne_url = req_url req, ne_status = None,
      ne_duration = (case lookup_pending st req of Some p \<Rightarrow> Some (now - start p) | None \<Rightarrow> None),
      ne_error = Some (or_else (req_failure req) ''Request failed''), ne_timestamp = stamp\<rparr>"
  by (simp add: on_requestfailed_def Let_def heap_delete_pending network_record_network last_addToBuffer)

text \<open>The request listener stores the pending request under the id it attaches to the request.\<close>

lemma on_request_lookup:
  "lookup_pending (on_request req now_id now_start st) req =
     Some \<lparr>start = now_start, pr_method = req_method req, pr_url = req_url req\<rparr>"
  by (simp add: on_request_def lookup_pending_def Let_def truthy_def str_def)

lemma lookup_pending_found:
  "requestIds st (req_ref req) = Some rid \<Longrightarrow> rid \<noteq> [] \<Longrightarrow>
   lookup_pending st req = pendingRequests st rid"
  by (simp add: lookup_pending_def truthy_def str_def)

lemma lookup_pending_absent:
  "requestIds st (req_ref req) = None \<or> requestIds st (req_ref req) = Some [] \<or>
   (\<exists>rid. requestIds st (req_ref req) = Some rid \<and> pendingRequests st rid = None) \<Longrightarrow>
   lookup_pending st req = None"
  by (auto simp: lookup_pending_def truthy_def str_def)

lemma pending_after_delete:
  "pendingRequests (delete_pending st req) rid =
     (if requestIds st (req_ref req) = Some rid \<and> rid \<noteq> [] then None
      else pendingRequests st rid)"
  by (cases "requestIds st (req_ref req)") (auto simp: delete_pending_def truthy_def str_def)

lemma pending_record_network: "pendingRequests (record_network d e st) = pendingRequests st"
  by (simp add: record_network_def)

lemma network_on_response:
  "network (heap (on_response d req status now stamp st) d) =
     addToBuffer (network (heap st d))
       \<lparr>ne_method = req_method req, ne_url = req_url req, ne_status = Some status,
        ne_duration = (case lookup_pending st req of Some p \<Rightarrow> Some (now - start p) | None \<Rightarrow> None),
        ne_error = None, ne_timestamp = stamp\<rparr>"
  by (simp add: on_response_def Let_def heap_delete_pending network_record_network)

lemma network_on_requestfailed:
  "network (heap (on_requestfailed d req now stamp st) d) =
     addToBuffer (network (heap st d))
       \<lparr>ne_method = req_method req, ne_url = req_url req, ne_status = None,
        ne_duration = (case lookup_pending st req of Some p \<Rightarrow> Some (now - start p) | None \<Rightarrow> None),
        ne_error = Some (or_else (req_failure req) ''Request failed''), ne_timestamp = stamp\<rparr>"
  by (simp add: on_requestfailed_def Let_def heap_delete_pending network_record_network)

text \<open>
  Claim C6, amended. On a response or a request failure, the entry appended to the
  network buffer carries the duration \<open>now - start\<close>, the clock read at completion
  minus the recorded start, when a pending request is stored under the (non-empty)
  correlation id attached to the request; that duration is not negative when the
  clock read at completion is not behind the recorded start. The entry carries no
  duration when the request has no id, or nothing is pending under its id. In both
  cases nothing is pending under that id afterwards, and every other pending
  request is as it was.
\<close>

theorem completion_duration:
  "(\<forall>rid p. requestIds st (req_ref req) = Some rid \<and> rid \<noteq> [] \<and>
        pendingRequests st rid = Some p \<longrightarrow>
      network (heap (on_response d req status now stamp st) d) =
        addToBuffer (network (heap st d))
          \<lparr>ne_method = req_method req, ne_url = req_url req, ne_status = Some status,
           ne_duration = Some (now - start p), ne_error = None, ne_timestamp = stamp\<rparr> \<and>
      network (heap (on_requestfailed d req now stamp st) d) =
        addToBuffer (network (heap st d))
          \<lparr>ne_method = req_method req, ne_url = req_url req, ne_status = None,
           ne_duration = Some (now - start p),
           ne_error = Some (or_else (req_failure req) ''Request failed''),
           ne_timestamp = stamp\<rparr> \<and>
      (start p \<le> now \<longrightarrow>
        (\<exists>dur. ne_duration (last (network (heap (on_response d req status now stamp st) d))) =
           Some dur \<and> 0 \<le> dur) \<and>
        (\<exists>dur. ne_duration (last (network (heap (on_requestfailed d req now stamp st) d))) =
           Some dur \<and> 0 \<le> dur))) \<and>
   (requestIds st (req_ref req) = None \<or> requestIds st (req_ref req) = Some [] \<or>
      (\<exists>rid. requestIds st (req_ref req) = Some rid \<and> pendingRequests st rid = None) \<longrightarrow>
      network (heap (on_response d req status now stamp st) d) =
        addToBuffer (network (heap st d))
          \<lparr>ne_method = req_method req, ne_url = req_url req, ne_status = Some status,
           ne_duration = None, ne_error = None, ne_timestamp = stamp\<rparr> \<and>
      network (heap (on_requestfailed d req now stamp st) d) =
        addToBuffer (network (heap st d))
          \<lparr>ne_method = req_method req, ne_url = req_url req, ne_status = None,
           ne_duration = None,
           ne_error = Some (or_else (req_failure req) ''Request failed''),
           ne_timestamp = stamp\<rparr>) \<and>
   (\<forall>rid. pendingRequests (on_response d req status now stamp st) rid =
      (if requestIds st (req_ref req) = Some rid \<and> rid \<noteq> [] then None
       else pendingRequests st rid)) \<and>
   (\<forall>rid. pendingRequests (on_requestfailed d req now stamp st) rid =
      (if requestIds st (req_ref req) = Some rid \<and> rid \<noteq> [] then None
       else pendingRequests st rid))"
proof (intro conjI allI impI)
  fix rid p
  assume found: "requestIds st (req_ref req) = Some rid \<and> rid \<noteq> [] \<and>
    pendingRequests st rid = Some p"
  then have l: "lookup_pending st req = Some p"
    by (simp add: lookup_pending_found)
  show "network (heap (on_response d req status now stamp st) d) =
        addToBuffer (network (heap st d))
          \<lparr>ne_method = req_method req, ne_url = req_url req, ne_status = Some status,
           ne_duration = Some (now - start p), ne_error = None, ne_timestamp = stamp\<rparr>"
    by (simp add: network_on_response l)
  show "network (heap (on_requestfailed d req now stamp st) d) =
        addToBuffer (network (heap st d))
          \<lparr>ne_method = req_method req, ne_url = req_url req, ne_status = None,
           ne_duration = Some (now - start p),
           ne_error = Some (or_else (req_failure req) ''Request failed''),
           ne_timestamp = stamp\<rparr>"
    by (simp add: network_on_requestfailed l)
  assume "start p \<le> now"
  then show "\<exists>dur. ne_duration (last (network (heap (on_response d req status now stamp st) d))) =
           Some dur \<and> 0 \<le> dur"
    by (simp add: last_network_on_response l)
  from \<open>start p \<le> now\<close>
  show "\<exists>dur. ne_duration (last (network (heap (on_requestfailed d req now stamp st) d))) =
           Some dur \<and> 0 \<le> dur"
    by (simp add: last_network_on_requestfailed l)
next
  assume "requestIds st (req_ref req) = None \<or> requestIds st (req_ref req) = Some [] \<or>
      (\<exists>rid. requestIds st (req_ref req) = Some rid \<and> pendingRequests st rid = None)"
  then have l: "lookup_pending st req = None" by (rule lookup_pending_absent)
  show "network (heap (on_response d req status now stamp st) d) =
        addToBuffer (network (heap st d))
          \<lparr>ne_method = req_method req, ne_url = req_url req, ne_status = Some status,
           ne_duration = None, ne_error = None, ne_timestamp = stamp\<rparr>"
    by (simp add: network_on_response l)
  show "network (heap (on_requestfailed d req now stamp st) d) =
        addToBuffer (network (heap st d))
          \<lparr>ne_method = req_method req, ne_url = req_url req, ne_status = None,
           ne_duration = None,
           ne_error = Some (or_else (req_failure req) ''Request failed''),
           ne_timestamp = stamp\<rparr>"
    by (simp add: network_on_requestfailed l)
next
  fix rid
  show "pendingRequests (on_response d req status now stamp st) rid =
      (if requestIds st (req_ref req) = Some rid \<and> rid \<noteq> [] then None
       else pendingRequests st rid)"
    by (simp add: on_response_def Let_def pending_after_delete requestIds_record
        pending_record_network)
  show "pendingRequests (on_requestfailed d req now stamp st) rid =
      (if requestIds st (req_ref req) = Some rid \<and> rid \<noteq> [] then None
       else pendingRequests st rid)"
    by (simp add: on_requestfailed_def Let_def pending_after_delete requestIds_record
        pending_record_network)
qed

lemma two_pending_ids:
  "requestIds two_pending (req_ref req_a) = Some ''http://localhost/api-5000'' \<and>
   requestIds two_pending (req_ref req_b) = Some ''http://localhost/api-5000'' \<and>
   pendingRequests two_pending ''http://localhost/api-5000'' =
     Some \<lparr>start = 5000, pr_method = ''GET'', pr_url = ''http://localhost/api''\<rparr>"
  by (simp add: two_pending_def on_request_def Let_def req_a_def req_b_def show_int_def
      digits.simps digit_def)

lemma first_answered_ids:
  "requestIds first_answered (req_ref req_b) = Some ''http://localhost/api-5000'' \<and>
   pendingRequests first_answered ''http://localhost/api-5000'' = None"
  using two_pending_ids
  by (simp add: first_answered_def on_response_def Let_def pending_after_delete
      requestIds_record pending_record_network delete_pending_def record_network_def truthy_def
      str_def)

lemma network_one_session: "network (heap one_session 2) = []"
  by (simp add: one_session_def openSession_def initial_registry_def ok_open_env_def
      ensureBrowser_def launch_def Let_def empty_diagnostics_def)

lemma network_two_pending: "network (heap two_pending 2) = []"
  by (simp add: two_pending_def on_request_def Let_def network_one_session)

theorem completion_duration_witness:
  "requestIds two_pending (req_ref req_a) = Some ''http://localhost/api-5000'' \<and>
   pendingRequests two_pending ''http://localhost/api-5000'' =
     Some \<lparr>start = 5000, pr_method = ''GET'', pr_url = ''http://localhost/api''\<rparr> \<and>
   network (heap (on_response 2 req_a 200 5040 5040 two_pending) 2) =
     [\<lparr>ne_method = ''GET'', ne_url = ''http://localhost/api'', ne_status = Some 200,
       ne_duration = Some 40, ne_error = None, ne_timestamp = 5040\<rparr>] \<and>
   pendingRequests (on_response 2 req_a 200 5040 5040 two_pending)
     ''http://localhost/api-5000'' = None \<and>
   requestIds first_answered (req_ref req_b) = Some ''http://localhost/api-5000'' \<and>
   pendingRequests first_answered ''http://localhost/api-5000'' = None \<and>
   ne_duration (last (network (heap (on_response 2 req_b 200 5050 5050 first_answered) 2))) =
     None \<and>
   ne_duration (last (network (heap (on_requestfailed 2 req_b 5050 5050 first_answered) 2))) =
     None"
proof -
  note a = completion_duration [where st = two_pending and req = req_a and d = 2
      and status = 200 and now = 5040 and stamp = 5040]
  note b = completion_duration [where st = first_answered and req = req_b and d = 2
      and status = 200 and now = 5050 and stamp = 5050]
  from a two_pending_ids
  have 1: "network (heap (on_response 2 req_a 200 5040 5040 two_pending) 2) =
     [\<lparr>ne_method = ''GET'', ne_url = ''http://localhost/api'', ne_status = Some 200,
       ne_duration = Some 40, ne_error = None, ne_timestamp = 5040\<rparr>]"
    by (simp add: network_two_pending addToBuffer_def MAX_BUFFER_SIZE_def req_a_def)
  from a two_pending_ids
  have 2: "pendingRequests (on_response 2 req_a 200 5040 5040 two_pending)
     ''http://localhost/api-5000'' = None"
    by simp
  from b first_answered_ids
  have 3: "ne_duration (last (network (heap (on_response 2 req_b 200 5050 5050 first_answered) 2))) =
     None"
    by (simp add: last_addToBuffer)
  from b first_answered_ids
  have 4: "ne_duration (last (network (heap (on_requestfailed 2 req_b 5050 5050 first_answered) 2))) =
     None"
    by (simp add: last_addToBuffer)
  from 1 2 3 4 two_pending_ids first_answered_ids show ?thesis by simp
qed

text \<open>
  The claim as stated promises a non-negative duration whenever a pending request
  matches. The listeners subtract two readings of the wall clock and do not clamp
  the result: when the clock read at completion is 10 ms behind the recorded start,
  the recorded entry carries the duration -10.
\<close>

theorem completion_duration_counterexample:
  "requestIds two_pending (req_ref req_a) = Some ''http://localhost/api-5000'' \<and>
   pendingRequests two_pending ''http://localhost/api-5000'' =
     Some \<lparr>start = 5000, pr_method = ''GET'', pr_url = ''http://localhost/api''\<rparr> \<and>
   ne_duration (last (network (heap (on_response 2 req_a 200 4990 4990 two_pending) 2))) =
     Some (- 10) \<and>
   ne_duration (last (network (heap (on_requestfailed 2 req_a 4990 4990 two_pending) 2))) =
     Some (- 10) \<and>
   \<not> (0::int) \<le> - 10"
  using two_pending_ids
  by (simp add: last_network_on_response last_network_on_requestfailed lookup_pending_found)

section \<open>Properties of the actions\<close>

lemma truthy_None [simp]: "\<not> truthy None"
  by (simp add: truthy_def)

lemma navigate_requires_url:
  "a_type params = ''navigate'' \<Longrightarrow> \<not> truthy (a_url params) \<Longrightarrow>
   performAction eng params log = (Inl ''navigate requires url parameter'', log)"
  by (simp add: performAction_def Let_def)

lemma click_requires_selector:
  "a_type params = ''click'' \<Longrightarrow> \<not> truthy (a_selector params) \<Longrightarrow>
   performAction eng params log = (Inl ''click requires selector parameter'', log)"
  by (simp add: performAction_def Let_def)

lemma fill_requires_selector:
  "a_type params = ''fill'' \<Longrightarrow> \<not> truthy (a_selector params) \<Longrightarrow>
   performAction eng params log = (Inl ''fill requires selector parameter'', log)"
  by (simp add: performAction_def Let_def)

lemma fill_requires_value:
  "a_type params = ''fill'' \<Longrightarrow> truthy (a_selector params) \<Longrightarrow> a_value params = None \<Longrightarrow>
   performAction eng params log = (Inl ''fill requires value parameter'', log)"
  by (simp add: performAction_def Let_def)

lemma select_requires_selector:
  "a_type params = ''select'' \<Longrightarrow> \<not> truthy (a_selector params) \<Longrightarrow>
   performAction eng params log = (Inl ''select requires selector parameter'', log)"
  by (simp add: performAction_def Let_def)

lemma select_requires_value:
  "a_type params = ''select'' \<Longrightarrow> truthy (a_selector params) \<Longrightarrow> a_value params = None \<Longrightarrow>
   performAction eng params log = (Inl ''select requires value parameter'', log)"
  by (simp add: performAction_def Let_def)

lemma check_requires_selector:
  "a_type params = ''check'' \<Longrightarrow> \<not> truthy (a_selector params) \<Longrightarrow>
   performAction eng params log = (Inl ''check requires selector parameter'', log)"
  by (simp add: performAction_def Let_def)

lemma uncheck_requires_selector:
  "a_type params = ''uncheck'' \<Longrightarrow> \<not> truthy (a_selector params) \<Longrightarrow>
   performAction eng params log = (Inl ''uncheck requires selector parameter'', log)"
  by (simp add: performAction_def Let_def)

lemma highlight_requires_selector:
  "a_type params = ''highlight'' \<Longrightarrow> \<not> truthy (a_selector params) \<Longrightarrow>
   performAction eng params log = (Inl ''highlight requires selector parameter'', log)"
  by (simp add: performAction_def Let_def)

lemma press_requires_selector_or_value:
  "a_type params = ''press'' \<Longrightarrow> \<not> truthy (a_selector params) \<Longrightarrow> \<not> truthy (a_value params) \<Longrightarrow>
   performAction eng params log =
     (Inl ''press requires selector or value (key) parameter'', log)"
  by (simp add: performAction_def Let_def)

lemma unknown_action_type:
  "a_type params \<notin> set action_types \<Longrightarrow>
   performAction eng params log = (Inl (''Unknown action type: '' @ a_type params), log)"
  by (simp add: performAction_def Let_def action_types_def)

text \<open>
  Claim C8. When a parameter required by the action type is missing, or the action
  type is unknown, \<open>performAction\<close> throws, whatever the engine would answer, and the
  list of operations performed on the page is unchanged. The message names the
  action and the parameter it requires, or the unknown type.
\<close>

theorem missing_parameter_fails_fast:
  assumes "missing_required params"
  shows "\<exists>msg. performAction eng params log = (Inl msg, log) \<and>
    (if a_type params \<in> set action_types
     then \<exists>what. msg = a_type params @ '' requires '' @ what @ '' parameter''
     else msg = ''Unknown action type: '' @ a_type params)"
proof -
  have known: "t \<in> set action_types"
    if "t \<in> set [''click'', ''fill'', ''select'', ''check'', ''uncheck'', ''highlight'']" for t
    using that by (auto simp: action_types_def)
  have selector: ?thesis
    if "a_type params \<in> set [''click'', ''fill'', ''select'', ''check'', ''uncheck'', ''highlight'']"
      and "\<not> truthy (a_selector params)"
  proof -
    have "performAction eng params log =
        (Inl (a_type params @ '' requires '' @ ''selector'' @ '' parameter''), log)"
      using that
      by (auto simp: click_requires_selector fill_requires_selector select_requires_selector
          check_requires_selector uncheck_requires_selector highlight_requires_selector)
    then show ?thesis using known [OF that(1)] by auto
  qed
  have nav: ?thesis if "a_type params = ''navigate''" and "a_url params = None"
  proof -
    have "performAction eng params log =
        (Inl (a_type params @ '' requires '' @ ''url'' @ '' parameter''), log)"
      using that by (simp add: navigate_requires_url)
    moreover have "a_type params \<in> set action_types"
      using that(1) by (simp add: action_types_def)
    ultimately show ?thesis by auto
  qed
  have sel: ?thesis
    if "a_type params \<in> set [''click'', ''fill'', ''select'', ''check'', ''uncheck'', ''highlight'']"
      and "a_selector params = None"
    using selector that by simp
  have val: ?thesis if "a_type params \<in> set [''fill'', ''select'']" and "a_value params = None"
  proof (cases "truthy (a_selector params)")
    case True
    have "performAction eng params log =
        (Inl (a_type params @ '' requires '' @ ''value'' @ '' parameter''), log)"
      using that True by (auto simp: fill_requires_value select_requires_value)
    moreover have "a_type params \<in> set action_types"
      using that(1) by (auto simp: action_types_def)
    ultimately show ?thesis by auto
  next
    case False
    moreover have "a_type params \<in> set [''click'', ''fill'', ''select'', ''check'', ''uncheck'', ''highlight'']"
      using that(1) by auto
    ultimately show ?thesis using selector by simp
  qed
  have press: ?thesis
    if "a_type params = ''press''" and "a_selector params = None" and "a_value params = None"
  proof -
    have "performAction eng params log =
        (Inl (a_type params @ '' requires '' @ ''selector or value (key)'' @ '' parameter''), log)"
      using that by (simp add: press_requires_selector_or_value)
    moreover have "a_type params \<in> set action_types"
      using that(1) by (simp add: action_types_def)
    ultimately show ?thesis by auto
  qed
  have unknown: ?thesis if "a_type params \<notin> set action_types"
    using that by (simp add: unknown_action_type)
  show ?thesis
    using assms unfolding missing_required_def
    by (elim disjE conjE) (rule nav sel val press unknown; assumption)+
qed

theorem missing_parameter_fails_fast_witness:
  "missing_required (action_params ''fill'' (Some ''#name'') None None) \<and>
   performAction quiet_engine (action_params ''fill'' (Some ''#name'') None None) [Goto ''http://localhost/''] =
     (Inl ''fill requires value parameter'', [Goto ''http://localhost/'']) \<and>
   missing_required (action_params ''hover'' (Some ''#name'') None None) \<and>
   performAction quiet_engine (action_params ''hover'' (Some ''#name'') None None) [] =
     (Inl ''Unknown action type: hover'', [])"
  using missing_parameter_fails_fast [of "action_params ''fill'' (Some ''#name'') None None"
      quiet_engine "[Goto ''http://localhost/'']"]
    missing_parameter_fails_fast [of "action_params ''hover'' (Some ''#name'') None None"
      quiet_engine "[]"]
  by (simp add: missing_required_def action_params_def action_types_def performAction_def
      Let_def truthy_def)

text \<open>
  Claim C9, amended. For a press action: with a selector, the key sent to that element
  is the value, or Enter when the value is omitted or empty; without a selector the
  value is required and is the key sent to the page's keyboard. When the key press
  goes through, the action waits for the load state, ignores a failure of that wait,
  and reports the page's URL. With neither selector nor value the action throws and
  performs no page operation.
\<close>

theorem press_sends_key:
  assumes "a_type params = ''press''"
  shows "(truthy (a_selector params) \<and>
      rejects eng log (Press (str (a_selector params)) (or_else (a_value params) ''Enter'')) = None \<longrightarrow>
      performAction eng params log =
        (Inr (press_result (url_after eng
            (log @ [Press (str (a_selector params)) (or_else (a_value params) ''Enter''),
                    WaitForLoadState]))),
         log @ [Press (str (a_selector params)) (or_else (a_value params) ''Enter''),
                WaitForLoadState])) \<and>
    (\<not> truthy (a_selector params) \<and> truthy (a_value params) \<and>
      rejects eng log (KeyboardPress (str (a_value params))) = None \<longrightarrow>
      performAction eng params log =
        (Inr (press_result (url_after eng
            (log @ [KeyboardPress (str (a_value params)), WaitForLoadState]))),
         log @ [KeyboardPress (str (a_value params)), WaitForLoadState])) \<and>
    (\<not> truthy (a_selector params) \<and> \<not> truthy (a_value params) \<longrightarrow>
      performAction eng params log =
        (Inl ''press requires selector or value (key) parameter'', log)) \<and>
    or_else None ''Enter'' = ''Enter'' \<and>
    (\<forall>key. key \<noteq> [] \<longrightarrow> or_else (Some key) ''Enter'' = key \<and> str (Some key) = key)"
  using assms
  by (simp add: performAction_def Let_def page_call_def settle_and_report_url_def press_result_def
      or_else_def str_def)

theorem press_sends_key_witness:
  "performAction quiet_engine (action_params ''press'' (Some ''#q'') None None) [] =
     (Inr (press_result ''about:blank''), [Press ''#q'' ''Enter'', WaitForLoadState]) \<and>
   performAction quiet_engine (action_params ''press'' None (Some ''Escape'') None) [] =
     (Inr (press_result ''about:blank''), [KeyboardPress ''Escape'', WaitForLoadState])"
  using press_sends_key [of "action_params ''press'' (Some ''#q'') None None" quiet_engine "[]"]
    press_sends_key [of "action_params ''press'' None (Some ''Escape'') None" quiet_engine "[]"]
  by (simp add: action_params_def quiet_engine_def truthy_def or_else_def str_def)

text \<open>
  The claim as stated has a press without selector and without value send Enter to
  the page; the code rejects it before any page operation.
\<close>

theorem press_without_key_counterexample:
  "performAction quiet_engine (action_params ''press'' None None None) [] =
     (Inl ''press requires selector or value (key) parameter'', []) \<and>
   snd (performAction quiet_engine (action_params ''press'' None None None) []) \<noteq>
     [KeyboardPress ''Enter'', WaitForLoadState]"
  by (simp add: performAction_def Let_def action_params_def truthy_def)

section \<open>Properties of the sequence runner\<close>

lemma run_steps_failure:
  "first_failure eng ev steps log = Some k \<Longrightarrow>
   run_steps eng ev i steps log = (os, ok, log') \<Longrightarrow>
   1 \<le> k \<and> k \<le> length steps \<and> \<not> ok \<and> length os = k \<and>
   run_steps eng ev i (take k steps) log = (os, ok, log')"
proof (induction steps arbitrary: log k i os)
  case Nil
  then show ?case by simp
next
  case (Cons s rest)
  obtain r log1 where step: "run_step eng ev s log = (r, log1)"
    by (cases "run_step eng ev s log")
  show ?case
  proof (cases r)
    case (Some e)
    with step Cons.prems show ?thesis by auto
  next
    case None
    with step Cons.prems(1) obtain k' where
      k': "first_failure eng ev rest log1 = Some k'" "k = Suc k'"
      by auto
    obtain os1 where rec: "run_steps eng ev (i + 1) rest log1 = (os1, ok, log')"
      and os: "os = outcome i s None # os1"
      using Cons.prems(2) step None by (auto split: prod.splits)
    from Cons.IH [OF k'(1) rec] step None k'(2) os show ?thesis by simp
  qed
qed

lemma run_steps_success:
  "first_failure eng ev steps log = None \<Longrightarrow>
   run_steps eng ev i steps log = (os, ok, log') \<Longrightarrow>
   ok \<and> length os = length steps"
proof (induction steps arbitrary: log i os)
  case Nil
  then show ?case by simp
next
  case (Cons s rest)
  obtain r log1 where step: "run_step eng ev s log = (r, log1)"
    by (cases "run_step eng ev s log")
  with Cons.prems(1) have r: "r = None" and rest: "first_failure eng ev rest log1 = None"
    by (auto split: option.splits)
  obtain os1 where rec: "run_steps eng ev (i + 1) rest log1 = (os1, ok, log')"
    and os: "os = outcome i s None # os1"
    using Cons.prems(2) step r by (auto split: prod.splits)
  from Cons.IH [OF rest rec] os show ?case by simp
qed

text \<open>
  Claim C7. When step \<open>k\<close> is the first step that throws or fails, the run returns a
  result with \<open>completed = k\<close>, \<open>total\<close> the number of declared steps and
  \<open>success = false\<close>; the result, the events and the operations performed on the
  page are those of running the first \<open>k\<close> steps alone, so no later step is
  executed. When no step fails, \<open>completed = total\<close> and \<open>success = true\<close>. The
  run is a total function returning the result record: no failure escapes it.
\<close>

theorem sequence_stops_at_first_failure:
  "(first_failure eng ev steps log = Some k \<longrightarrow>
      sr_success (fst (runSequence eng ev steps log)) = False \<and>
      completed (fst (runSequence eng ev steps log)) = k \<and>
      total (fst (runSequence eng ev steps log)) = length steps \<and>
      length (outcomes (fst (runSequence eng ev steps log))) = k \<and>
      1 \<le> k \<and> k \<le> length steps \<and>
      runSequence eng ev steps log =
        ((fst (runSequence eng ev (take k steps) log))\<lparr>total := length steps\<rparr>,
         snd (runSequence eng ev (take k steps) log))) \<and>
   (first_failure eng ev steps log = None \<longrightarrow>
      sr_success (fst (runSequence eng ev steps log)) = True \<and>
      completed (fst (runSequence eng ev steps log)) = total (fst (runSequence eng ev steps log)) \<and>
      total (fst (runSequence eng ev steps log)) = length steps)"
proof (intro conjI impI)
  assume k: "first_failure eng ev steps log = Some k"
  obtain os ok log' where run: "run_steps eng ev 1 steps log = (os, ok, log')"
    by (cases "run_steps eng ev 1 steps log") auto
  note f = run_steps_failure [OF k run]
  from f have take: "run_steps eng ev 1 (take k steps) log = (os, ok, log')"
    and ok: "\<not> ok" and len: "length os = k"
    by simp_all
  from ok run show "sr_success (fst (runSequence eng ev steps log)) = False"
    by (simp add: runSequence_def)
  from len run show "completed (fst (runSequence eng ev steps log)) = k"
    by (simp add: runSequence_def)
  from run show "total (fst (runSequence eng ev steps log)) = length steps"
    by (simp add: runSequence_def)
  from len run show "length (outcomes (fst (runSequence eng ev steps log))) = k"
    by (simp add: runSequence_def)
  from f show "1 \<le> k" "k \<le> length steps" by simp_all
  from run take len f show "runSequence eng ev steps log =
        ((fst (runSequence eng ev (take k steps) log))\<lparr>total := length steps\<rparr>,
         snd (runSequence eng ev (take k steps) log))"
    by (simp add: runSequence_def)
next
  assume n: "first_failure eng ev steps log = None"
  obtain os ok log' where run: "run_steps eng ev 1 steps log = (os, ok, log')"
    by (cases "run_steps eng ev 1 steps log") auto
  from run_steps_success [OF n run] have ok: "ok" and len: "length os = length steps"
    by simp_all
  from ok run show "sr_success (fst (runSequence eng ev steps log)) = True"
    by (simp add: runSequence_def)
  from len run show "completed (fst (runSequence eng ev steps log)) =
      total (fst (runSequence eng ev steps log))"
    by (simp add: runSequence_def)
  from run show "total (fst (runSequence eng ev steps log)) = length steps"
    by (simp add: runSequence_def)
qed

lemma five_steps_first_failure: "first_failure quiet_engine always_true five_steps [] = Some 2"
  by (simp add: five_steps_def action_params_def performAction_def Let_def truthy_def str_def
      element_call_def page_call_def quiet_engine_def)

lemma five_steps_run:
  "runSequence quiet_engine always_true five_steps [] =
     (\<lparr>sr_success = False, completed = 2, total = 5,
       outcomes = [\<lparr>so_index = 1, so_kind = ''action'', so_success = True, so_detail = None\<rparr>,
                   \<lparr>so_index = 2, so_kind = ''action'', so_success = False,
                    so_detail = Some ''click requires selector parameter''\<rparr>],
       final_url = ''about:blank''\<rparr>,
      [Fill ''#name'' ''Ada''])"
  by (simp add: runSequence_def five_steps_def action_params_def performAction_def Let_def
      truthy_def str_def element_call_def page_call_def quiet_engine_def outcome_def)

lemma one_step_first_failure:
  "first_failure quiet_engine always_true (take 1 five_steps) [] = None"
  by (simp add: five_steps_def action_params_def performAction_def Let_def truthy_def str_def
      element_call_def page_call_def quiet_engine_def)

theorem sequence_stops_at_first_failure_witness:
  "first_failure quiet_engine always_true five_steps [] = Some 2 \<and>
   completed (fst (runSequence quiet_engine always_true five_steps [])) = 2 \<and>
   total (fst (runSequence quiet_engine always_true five_steps [])) = 5 \<and>
   sr_success (fst (runSequence quiet_engine always_true five_steps [])) = False \<and>
   snd (runSequence quiet_engine always_true five_steps []) = [Fill ''#name'' ''Ada''] \<and>
   first_failure quiet_engine always_true (take 1 five_steps) [] = None \<and>
   sr_success (fst (runSequence quiet_engine always_true (take 1 five_steps) [])) = True \<and>
   completed (fst (runSequence quiet_engine always_true (take 1 five_steps) [])) = 1 \<and>
   total (fst (runSequence quiet_engine always_true (take 1 five_steps) [])) = 1"
  using sequence_stops_at_first_failure [of quiet_engine always_true five_steps "[]" 2]
    sequence_stops_at_first_failure [of quiet_engine always_true "take 1 five_steps" "[]" 0]
  by (simp add: five_steps_first_failure one_step_first_failure five_steps_run)
    (simp add: five_steps_def runSequence_def action_params_def performAction_def Let_def
      truthy_def str_def element_call_def page_call_def quiet_engine_def outcome_def)

section \<open>Properties of the describe tool\<close>



text \<open>With a provider configured, an unknown session gets the session-not-found answer.\<close>

lemma describe_configured_unknown_session:
  "isConfigured penv \<Longrightarrow> getSession st (d_session params) = None \<Longrightarrow>
   describe_handler cap api penv params st =
     DescribeSessionNotFound (''Session '' @ quoted (d_session params) @ '' not found'')
       (listSessions st)"
  by (simp add: describe_handler_def Let_def)

end
